theory Spec2Isabelle
  imports Main
begin

section \<open>JavaScript values\<close>

text \<open>
  The handlers of \<^verbatim>\<open>app.ts\<close> work on untyped values (\<^verbatim>\<open>Promise<any>\<close>): the bodies
  of the token response and of the two GraphQL responses, and the \<^verbatim>\<open>code\<close> query
  parameter. A value is \<^verbatim>\<open>undefined\<close>, \<^verbatim>\<open>null\<close>, a boolean, a number, a string, an
  array or a plain object. An object is the list of its own properties, the first
  binding of a name being the property. Strings are byte strings (UTF-8).

  A number of the model is an integer of magnitude below \<open>2\<^sup>5\<^sup>3\<close>: a double holds it
  exactly and \<^verbatim>\<open>ToString\<close> prints it as its decimal numeral. Fractions, \<^verbatim>\<open>NaN\<close>, the
  infinities and larger numbers are outside the model.
\<close>

typedef safe_integer = "{i :: int. - 9007199254740991 \<le> i \<and> i \<le> 9007199254740991}"
  morphisms integer_value Safe_Integer
  by (rule exI [of _ 0]) simp

datatype jsval =
    JUndefined
  | JNull
  | JBool bool
  | JNum safe_integer
  | JStr string
  | JArr "jsval list"
  | JObj "(string \<times> jsval) list"

text \<open>
  A thrown value is an \<^verbatim>\<open>Error\<close> with a message: a \<^verbatim>\<open>TypeError\<close> raised by the
  language itself (with the wording of Node's engine), or the error with which a
  request of the HTTP client or of the GraphQL client is rejected.
\<close>

datatype js_error =
    TypeError (message: string)
  | RequestError (message: string)

text \<open>Truthiness, as \<^verbatim>\<open>!v\<close> and \<^verbatim>\<open>if (v)\<close> test it.\<close>

fun truthy :: "jsval \<Rightarrow> bool" where
  "truthy JUndefined = False"
| "truthy JNull = False"
| "truthy (JBool b) = b"
| "truthy (JNum n) = (integer_value n \<noteq> 0)"
| "truthy (JStr s) = (s \<noteq> [])"
| "truthy (JArr xs) = True"
| "truthy (JObj fs) = True"

fun nullish :: "jsval \<Rightarrow> bool" where
  "nullish JUndefined = True"
| "nullish JNull = True"
| "nullish v = False"

text \<open>
  Reading a property of a value that is neither \<^verbatim>\<open>undefined\<close> nor \<^verbatim>\<open>null\<close>, for the
  data properties the program reads (\<^verbatim>\<open>hubs\<close>, \<^verbatim>\<open>results\<close>, \<^verbatim>\<open>id\<close>, \<^verbatim>\<open>name\<close>,
  \<^verbatim>\<open>hub\<close>, \<^verbatim>\<open>projects\<close>, \<^verbatim>\<open>access_token\<close>): an object gives its own property, and
  every other value gives \<^verbatim>\<open>undefined\<close>, since no prototype has a property of one
  of these names. \<^verbatim>\<open>length\<close> and \<^verbatim>\<open>forEach\<close> are modelled apart, below.
\<close>

fun own_prop :: "jsval \<Rightarrow> string \<Rightarrow> jsval" where
  "own_prop (JObj fs) p = (case map_of fs p of None \<Rightarrow> JUndefined | Some v \<Rightarrow> v)"
| "own_prop v p = JUndefined"

text \<open>\<^verbatim>\<open>v.p\<close>: a \<^verbatim>\<open>TypeError\<close> on \<^verbatim>\<open>undefined\<close> and on \<^verbatim>\<open>null\<close>.\<close>

definition get_prop :: "jsval \<Rightarrow> string \<Rightarrow> js_error + jsval" where
  "get_prop v p =
     (if v = JUndefined then
        Inl (TypeError (''Cannot read properties of undefined (reading '' @ [CHR 0x27] @ p @ [CHR 0x27] @ '')''))
      else if v = JNull then
        Inl (TypeError (''Cannot read properties of null (reading '' @ [CHR 0x27] @ p @ [CHR 0x27] @ '')''))
      else Inr (own_prop v p))"

text \<open>\<^verbatim>\<open>v?.p\<close>: \<^verbatim>\<open>undefined\<close> on \<^verbatim>\<open>undefined\<close> and on \<^verbatim>\<open>null\<close>.\<close>

definition opt_prop :: "jsval \<Rightarrow> string \<Rightarrow> jsval" where
  "opt_prop v p = (if nullish v then JUndefined else own_prop v p)"

text \<open>
  \<^verbatim>\<open>v.length === 0\<close> for a truthy \<^verbatim>\<open>v\<close>: the number of elements of an array, the
  length of a string, an object's own \<^verbatim>\<open>length\<close> property; a number and a boolean
  have no \<^verbatim>\<open>length\<close>, and \<^verbatim>\<open>undefined === 0\<close> is false.
\<close>

fun length_is_zero :: "jsval \<Rightarrow> bool" where
  "length_is_zero (JArr xs) = (xs = [])"
| "length_is_zero (JStr s) = (s = [])"
| "length_is_zero (JObj fs) =
     (case map_of fs ''length'' of
        Some (JNum n) \<Rightarrow> integer_value n = 0
      | _ \<Rightarrow> False)"
| "length_is_zero v = False"

subsection \<open>Conversion to a string\<close>

definition digit :: "nat \<Rightarrow> char" where
  "digit n = ''0123456789'' ! n"

fun show_nat :: "nat \<Rightarrow> string" where
  "show_nat n = (if n < 10 then [digit n] else show_nat (n div 10) @ [digit (n mod 10)])"

declare show_nat.simps [simp del]

definition show_int :: "int \<Rightarrow> string" where
  "show_int i = (if i < 0 then CHR ''-'' # show_nat (nat (- i)) else show_nat (nat i))"

text \<open>
  \<^verbatim>\<open>ToString\<close>, which a template literal applies to each substitution and
  \<^verbatim>\<open>URLSearchParams\<close> to each value. An array joins the strings of its elements
  with commas, \<^verbatim>\<open>undefined\<close> and \<^verbatim>\<open>null\<close> elements giving the empty string. A plain
  object gives \<^verbatim>\<open>[object Object]\<close>, unless it has an own property \<^verbatim>\<open>toString\<close>: that
  property is data, not a function, and \<^verbatim>\<open>valueOf\<close> (own or inherited) gives no
  primitive either, so the conversion throws.
\<close>

fun to_string :: "jsval \<Rightarrow> js_error + string"
  and join_strings :: "jsval list \<Rightarrow> js_error + string" where
  "to_string JUndefined = Inr ''undefined''"
| "to_string JNull = Inr ''null''"
| "to_string (JBool b) = Inr (if b then ''true'' else ''false'')"
| "to_string (JNum n) = Inr (show_int (integer_value n))"
| "to_string (JStr s) = Inr s"
| "to_string (JArr xs) = join_strings xs"
| "to_string (JObj fs) =
     (if ''toString'' \<in> set (map fst fs)
      then Inl (TypeError ''Cannot convert object to primitive value'')
      else Inr ''[object Object]'')"
| "join_strings [] = Inr []"
| "join_strings (x # xs) =
     (case (if nullish x then Inr [] else to_string x) of
        Inl e \<Rightarrow> Inl e
      | Inr s \<Rightarrow>
          (if xs = [] then Inr s
           else (case join_strings xs of
                   Inl e \<Rightarrow> Inl e
                 | Inr t \<Rightarrow> Inr (s @ '','' @ t))))"

subsection \<open>Form encoding\<close>

text \<open>
  \<^verbatim>\<open>URLSearchParams.prototype.toString\<close>: the \<^verbatim>\<open>application/x-www-form-urlencoded\<close>
  serialisation. A byte is kept when it is an ASCII letter or digit or one of
  \<^verbatim>\<open>* - . _\<close>; a space becomes \<^verbatim>\<open>+\<close>; any other byte becomes \<^verbatim>\<open>%\<close> and two upper-case
  hexadecimal digits.
\<close>

definition hex_digit :: "nat \<Rightarrow> char" where
  "hex_digit n = ''0123456789ABCDEF'' ! n"

definition form_safe :: "char \<Rightarrow> bool" where
  "form_safe c =
     (c \<in> set ''ABCDEFGHIJKLMNOPQRSTUVWXYZabcdefghijklmnopqrstuvwxyz0123456789*-._'')"

definition encode_byte :: "char \<Rightarrow> string" where
  "encode_byte c =
     (if form_safe c then [c]
      else if c = CHR '' '' then ''+''
      else [CHR ''%'', hex_digit (of_char c div 16), hex_digit (of_char c mod 16)])"

definition form_encode :: "string \<Rightarrow> string" where
  "form_encode s = concat (map encode_byte s)"

fun join_with :: "string \<Rightarrow> string list \<Rightarrow> string" where
  "join_with sep [] = []"
| "join_with sep [x] = x"
| "join_with sep (x # y # ys) = x @ sep @ join_with sep (y # ys)"

definition urlsearchparams_toString :: "(string \<times> string) list \<Rightarrow> string" where
  "urlsearchparams_toString params =
     join_with ''&'' (map (\<lambda>(k, v). form_encode k @ ''='' @ form_encode v) params)"

section \<open>Effects\<close>

text \<open>
  The GraphQL client that \<^verbatim>\<open>createGraphQLClient\<close> builds is its \<^verbatim>\<open>Authorization\<close>
  header (the endpoint and the content type are constants).
\<close>

datatype graphql_client = GraphQLClient (authorization: string)

text \<open>
  What a handler does to the outside, in order: the POST to the token endpoint (with
  its form-encoded body), the write of the session's \<^verbatim>\<open>accessToken\<close>, the two GraphQL
  requests, and the console lines.
\<close>

datatype event =
    TokenPost string
  | SessionWrite jsval
  | HubsQuery graphql_client
  | ProjectsQuery graphql_client jsval
  | ConsoleLog string
  | ConsoleError string js_error

text \<open>
  The collaborators a run talks to: the token endpoint behind \<^verbatim>\<open>axios.post\<close> (it
  gives \<^verbatim>\<open>response.data\<close>, or the error the call is rejected with) and the GraphQL
  endpoint behind \<^verbatim>\<open>client.request\<close>, for the hubs query and for the projects query
  with its \<^verbatim>\<open>hubId\<close> variable.
\<close>

record backend =
  token_endpoint :: "string \<Rightarrow> js_error + jsval"
  hubs_query :: "graphql_client \<Rightarrow> js_error + jsval"
  projects_query :: "graphql_client \<Rightarrow> jsval \<Rightarrow> js_error + jsval"

text \<open>A computation leaves a trace and either throws or returns.\<close>

type_synonym 'a io = "event list \<times> (js_error + 'a)"

definition pure :: "'a \<Rightarrow> 'a io" where
  "pure x = ([], Inr x)"

definition lift :: "js_error + 'a \<Rightarrow> 'a io" where
  "lift r = ([], r)"

definition emit :: "event \<Rightarrow> unit io" where
  "emit ev = ([ev], Inr ())"

definition and_then :: "'a io \<Rightarrow> ('a \<Rightarrow> 'b io) \<Rightarrow> 'b io" where
  "and_then m f =
     (case m of
        (tr, Inl e) \<Rightarrow> (tr, Inl e)
      | (tr, Inr x) \<Rightarrow> (case f x of (tr', r) \<Rightarrow> (tr @ tr', r)))"

definition try_catch :: "'a io \<Rightarrow> (js_error \<Rightarrow> 'a io) \<Rightarrow> 'a io" where
  "try_catch m h =
     (case m of
        (tr, Inl e) \<Rightarrow> (case h e of (tr', r) \<Rightarrow> (tr @ tr', r))
      | (tr, Inr x) \<Rightarrow> (tr, Inr x))"

section \<open>The GraphQL client (graphql\_client.ts)\<close>

definition createGraphQLClient :: "jsval \<Rightarrow> js_error + graphql_client" where
  "createGraphQLClient accessToken =
     (case to_string accessToken of
        Inl e \<Rightarrow> Inl e
      | Inr s \<Rightarrow> Inr (GraphQLClient (''Bearer '' @ s)))"

definition getHubs :: "backend \<Rightarrow> graphql_client \<Rightarrow> jsval io" where
  "getHubs be client = ([HubsQuery client], hubs_query be client)"

definition getProjects :: "backend \<Rightarrow> graphql_client \<Rightarrow> jsval \<Rightarrow> jsval io" where
  "getProjects be client hubId = ([ProjectsQuery client hubId], projects_query be client hubId)"

section \<open>The orchestrator (app.ts, performGraphQLQuery)\<close>

text \<open>
  The callback of \<^verbatim>\<open>hubs.forEach\<close>: the template literal reads and converts
  \<^verbatim>\<open>hub.id\<close>, then \<^verbatim>\<open>hub.name\<close>.
\<close>

definition log_hub :: "jsval \<Rightarrow> nat \<Rightarrow> unit io" where
  "log_hub hub index =
     and_then (lift (get_prop hub ''id'')) (\<lambda>i.
     and_then (lift (to_string i)) (\<lambda>id_text.
     and_then (lift (get_prop hub ''name'')) (\<lambda>n.
     and_then (lift (to_string n)) (\<lambda>name_text.
       emit (ConsoleLog (show_nat (index + 1) @ ''. Hub ID: '' @ id_text @ '', Name: '' @ name_text))))))"

fun log_each :: "jsval list \<Rightarrow> nat \<Rightarrow> unit io" where
  "log_each [] index = pure ()"
| "log_each (hub # rest) index = and_then (log_hub hub index) (\<lambda>_. log_each rest (Suc index))"

text \<open>
  \<^verbatim>\<open>hubs.forEach(...)\<close>: only an array has the method; on any other truthy value the
  call throws. The elements are handed on for \<^verbatim>\<open>hubs[0]\<close>.
\<close>

fun forEach_hubs :: "jsval \<Rightarrow> (jsval list) io" where
  "forEach_hubs (JArr hs) = and_then (log_each hs 0) (\<lambda>_. pure hs)"
| "forEach_hubs v = lift (Inl (TypeError ''hubs.forEach is not a function''))"

text \<open>\<^verbatim>\<open>hubs[0]\<close> of an array: \<^verbatim>\<open>undefined\<close> when there is no element.\<close>

definition first_elem :: "jsval list \<Rightarrow> jsval" where
  "first_elem hs = (case hs of [] \<Rightarrow> JUndefined | h # _ \<Rightarrow> h)"

definition no_hubs_result :: jsval where
  "no_hubs_result = JObj [(''error'', JStr ''No hubs found or access denied.'')]"

definition no_projects_result :: "string \<Rightarrow> jsval" where
  "no_projects_result hub_text =
     JObj [(''error'', JStr (''No projects found in hub '' @ hub_text @ ''.''))]"

definition query_error_result :: "js_error \<Rightarrow> jsval" where
  "query_error_result error =
     JObj [(''error'', JStr ''An error occurred during the GraphQL query''),
           (''details'', JStr (message error))]"

text \<open>
  The body of the \<^verbatim>\<open>try\<close> block, in the two parts its comments mark: step 3 (the
  projects query for the selected \<^verbatim>\<open>hubId\<close>, and what is returned), then steps 1
  and 2 (the hubs query and the selection) that lead to it.
\<close>

definition projects_steps :: "backend \<Rightarrow> graphql_client \<Rightarrow> jsval \<Rightarrow> jsval io" where
  "projects_steps be client hubId =
     and_then (getProjects be client hubId) (\<lambda>projectsResult.
     and_then (lift (get_prop projectsResult ''hub'')) (\<lambda>ph.
       let projects = opt_prop (opt_prop ph ''projects'') ''results'' in
       if \<not> truthy projects \<or> length_is_zero projects then
         and_then (lift (to_string hubId)) (\<lambda>hub_text. pure (no_projects_result hub_text))
       else pure projectsResult))"

definition query_steps :: "backend \<Rightarrow> jsval \<Rightarrow> jsval io" where
  "query_steps be accessToken =
     and_then (lift (createGraphQLClient accessToken)) (\<lambda>client.
     and_then (getHubs be client) (\<lambda>hubsResult.
     and_then (lift (get_prop hubsResult ''hubs'')) (\<lambda>h.
       let hubs = opt_prop h ''results'' in
       if \<not> truthy hubs \<or> length_is_zero hubs then pure no_hubs_result
       else
         and_then (emit (ConsoleLog ''Available Hubs:'')) (\<lambda>_.
         and_then (forEach_hubs hubs) (\<lambda>hs.
         and_then (lift (get_prop (first_elem hs) ''id'')) (\<lambda>hubId.
         and_then (lift (to_string hubId)) (\<lambda>hub_text.
         and_then (emit (ConsoleLog (''Using Hub ID: '' @ hub_text))) (\<lambda>_.
           projects_steps be client hubId))))))))"

definition performGraphQLQuery :: "backend \<Rightarrow> jsval \<Rightarrow> jsval io" where
  "performGraphQLQuery be accessToken =
     try_catch (query_steps be accessToken) (\<lambda>error.
       and_then (emit (ConsoleError ''Error during GraphQL query:'' error)) (\<lambda>_.
         pure (query_error_result error)))"

section \<open>The HTTP handlers (app.ts)\<close>

record config =
  CLIENT_ID :: string
  CLIENT_SECRET :: string

definition REDIRECT_URI :: string where
  "REDIRECT_URI = ''http://localhost:8080/api/auth/callback''"

definition SCOPES :: "string list" where
  "SCOPES = [''data:read'', ''account:read'', ''viewables:read'']"

text \<open>The session data: the \<^verbatim>\<open>accessToken\<close> slot, \<^verbatim>\<open>undefined\<close> while absent.\<close>

record session =
  accessToken :: jsval

datatype http_response =
    Json nat jsval
  | Redirect nat string

record reply =
  response :: http_response
  session_after :: session
  trace :: "event list"

subsection \<open>GET /\<close>

definition authorize_params :: "config \<Rightarrow> (string \<times> string) list" where
  "authorize_params cfg =
     [(''response_type'', ''code''),
      (''client_id'', CLIENT_ID cfg),
      (''redirect_uri'', REDIRECT_URI),
      (''scope'', join_with '' '' SCOPES)]"

text \<open>The redirect target, \<^verbatim>\<open>${authUrl}?${params.toString()}\<close>.\<close>

definition authorize_location :: "config \<Rightarrow> string" where
  "authorize_location cfg =
     ''https://developer.api.autodesk.com/authentication/v2/authorize'' @ ''?'' @
       urlsearchparams_toString (authorize_params cfg)"

text \<open>\<^verbatim>\<open>res.redirect(url)\<close> answers with status 302.\<close>

definition root_handler :: "config \<Rightarrow> session \<Rightarrow> reply" where
  "root_handler cfg sess =
     \<lparr>response = Redirect 302 (authorize_location cfg),
      session_after = sess,
      trace = []\<rparr>"

subsection \<open>GET /api/auth/callback\<close>

text \<open>
  The first part of the \<^verbatim>\<open>try\<close> block: the form body, the POST, and the read of
  \<^verbatim>\<open>response.data.access_token\<close>.
\<close>

definition token_request_body :: "config \<Rightarrow> string \<Rightarrow> string" where
  "token_request_body cfg code_text =
     urlsearchparams_toString
       [(''client_id'', CLIENT_ID cfg),
        (''client_secret'', CLIENT_SECRET cfg),
        (''grant_type'', ''authorization_code''),
        (''code'', code_text),
        (''redirect_uri'', REDIRECT_URI)]"

definition axios_post :: "backend \<Rightarrow> string \<Rightarrow> jsval io" where
  "axios_post be data = ([TokenPost data], token_endpoint be data)"

definition token_exchange :: "config \<Rightarrow> backend \<Rightarrow> jsval \<Rightarrow> jsval io" where
  "token_exchange cfg be code =
     and_then (lift (to_string code)) (\<lambda>code_text.
     and_then (axios_post be (token_request_body cfg code_text)) (\<lambda>tokens.
       lift (get_prop tokens ''access_token'')))"

definition token_error_reply :: "session \<Rightarrow> event list \<Rightarrow> js_error \<Rightarrow> reply" where
  "token_error_reply sess tr error =
     \<lparr>response = Json 500
        (JObj [(''error'', JStr ''Failed to obtain access token''),
               (''details'', JStr (message error))]),
      session_after = sess,
      trace = tr @ [ConsoleError ''Error during OAuth callback:'' error]\<rparr>"

definition callback_handler :: "config \<Rightarrow> backend \<Rightarrow> jsval \<Rightarrow> session \<Rightarrow> reply" where
  "callback_handler cfg be code sess =
     (if \<not> truthy code then
        \<lparr>response = Json 400 (JObj [(''error'', JStr ''Authorization code not found'')]),
         session_after = sess,
         trace = []\<rparr>
      else
        (case token_exchange cfg be code of
           (tr, Inl error) \<Rightarrow> token_error_reply sess tr error
         | (tr, Inr token) \<Rightarrow>
             let sess' = sess\<lparr>accessToken := token\<rparr>;
                 tr' = tr @ [SessionWrite token] in
             (case performGraphQLQuery be token of
                (tr'', Inl error) \<Rightarrow> token_error_reply sess' (tr' @ tr'') error
              | (tr'', Inr result) \<Rightarrow>
                  \<lparr>response = Json 200 result,
                   session_after = sess',
                   trace = tr' @ tr''\<rparr>)))"

subsection \<open>Requests of one session, in order\<close>

datatype request =
    GetRoot
  | GetCallback jsval

definition handle :: "config \<Rightarrow> backend \<Rightarrow> request \<Rightarrow> session \<Rightarrow> reply" where
  "handle cfg be req sess =
     (case req of
        GetRoot \<Rightarrow> root_handler cfg sess
      | GetCallback code \<Rightarrow> callback_handler cfg be code sess)"

text \<open>Each request meets the backend as it is at that moment.\<close>

fun serve :: "config \<Rightarrow> (backend \<times> request) list \<Rightarrow> session \<Rightarrow> reply list" where
  "serve cfg [] sess = []"
| "serve cfg ((be, req) # rest) sess =
     (let r = handle cfg be req sess in r # serve cfg rest (session_after r))"

section \<open>Notions used in the statements\<close>

text \<open>
  \<^verbatim>\<open>hubsResult.hubs?.results\<close> and \<^verbatim>\<open>projectsResult.hub?.projects?.results\<close>, for a
  result that is neither \<^verbatim>\<open>undefined\<close> nor \<^verbatim>\<open>null\<close>.
\<close>

definition hubs_list :: "jsval \<Rightarrow> jsval" where
  "hubs_list hubsResult = opt_prop (own_prop hubsResult ''hubs'') ''results''"

definition projects_list :: "jsval \<Rightarrow> jsval" where
  "projects_list projectsResult =
     opt_prop (opt_prop (own_prop projectsResult ''hub'') ''projects'') ''results''"

text \<open>
  An entry of the hubs list that the logging loop can print: it is neither
  \<^verbatim>\<open>undefined\<close> nor \<^verbatim>\<open>null\<close>, and its \<^verbatim>\<open>id\<close> and \<^verbatim>\<open>name\<close> convert to strings. Every hub
  \<^verbatim>\<open>{ id: string, name: string }\<close> is one.
\<close>

definition printable :: "jsval \<Rightarrow> bool" where
  "printable v = (case to_string v of Inl e \<Rightarrow> False | Inr s \<Rightarrow> True)"

definition loggable :: "jsval \<Rightarrow> bool" where
  "loggable hub =
     (\<not> nullish hub \<and> printable (own_prop hub ''id'') \<and> printable (own_prop hub ''name''))"

fun status_of :: "http_response \<Rightarrow> nat" where
  "status_of (Json status body) = status"
| "status_of (Redirect status url) = status"

fun is_projects_query :: "event \<Rightarrow> bool" where
  "is_projects_query (ProjectsQuery client hubId) = True"
| "is_projects_query ev = False"

definition projects_queries :: "event list \<Rightarrow> event list" where
  "projects_queries tr = filter is_projects_query tr"

fun is_session_write :: "event \<Rightarrow> bool" where
  "is_session_write (SessionWrite v) = True"
| "is_session_write ev = False"

definition session_writes :: "event list \<Rightarrow> event list" where
  "session_writes tr = filter is_session_write tr"

fun is_console :: "event \<Rightarrow> bool" where
  "is_console (ConsoleLog line) = True"
| "is_console (ConsoleError line error) = True"
| "is_console ev = False"

text \<open>A non-empty string, and a slot that is absent or holds one.\<close>

fun is_token :: "jsval \<Rightarrow> bool" where
  "is_token (JStr s) = (s \<noteq> [])"
| "is_token v = False"

definition slot_ok :: "jsval \<Rightarrow> bool" where
  "slot_ok v = (v = JUndefined \<or> is_token v)"

text \<open>
  A token endpoint that keeps its contract: every response it returns is an object
  whose \<^verbatim>\<open>access_token\<close> is a non-empty string.
\<close>

definition issues_tokens :: "backend \<Rightarrow> bool" where
  "issues_tokens be =
     (\<forall>data tokens. token_endpoint be data = Inr tokens \<longrightarrow>
        \<not> nullish tokens \<and> is_token (own_prop tokens ''access_token''))"

text \<open>
  The write a request makes to the session: none by \<^verbatim>\<open>GET /\<close>; by the callback, one
  when the exchange returned a token value, none when it threw or no code came.
\<close>

definition expected_writes :: "config \<Rightarrow> backend \<Rightarrow> request \<Rightarrow> event list" where
  "expected_writes cfg be req =
     (case req of
        GetRoot \<Rightarrow> []
      | GetCallback code \<Rightarrow>
          (if truthy code then
             (case snd (token_exchange cfg be code) of
                Inl error \<Rightarrow> []
              | Inr token \<Rightarrow> [SessionWrite token])
           else []))"

text \<open>The parameter names of a URL's query string, read off the string itself.\<close>

fun split_on :: "char \<Rightarrow> string \<Rightarrow> string list" where
  "split_on d [] = [[]]"
| "split_on d (c # cs) =
     (if c = d then [] # split_on d cs
      else (case split_on d cs of
              [] \<Rightarrow> [[c]]
            | p # ps \<Rightarrow> (c # p) # ps))"

definition query_names :: "string \<Rightarrow> string list" where
  "query_names url =
     map (takeWhile (\<lambda>c. c \<noteq> CHR ''=''))
       (split_on CHR ''&'' (drop 1 (dropWhile (\<lambda>c. c \<noteq> CHR ''?'') url)))"

subsection \<open>Sample data\<close>

definition sample_config :: config where
  "sample_config = \<lparr>CLIENT_ID = ''my client'', CLIENT_SECRET = ''s3cret''\<rparr>"

definition no_session :: session where
  "no_session = \<lparr>accessToken = JUndefined\<rparr>"

definition hub_one :: jsval where
  "hub_one = JObj [(''id'', JStr ''h1''), (''name'', JStr ''Hub One'')]"

definition hub_two :: jsval where
  "hub_two = JObj [(''id'', JStr ''h2''), (''name'', JStr ''Hub Two'')]"

definition hubs_payload :: "jsval list \<Rightarrow> jsval" where
  "hubs_payload hs = JObj [(''hubs'', JObj [(''results'', JArr hs)])]"

definition projects_payload :: "jsval list \<Rightarrow> jsval" where
  "projects_payload ps = JObj [(''hub'', JObj [(''projects'', JObj [(''results'', JArr ps)])])]"

definition project_alpha :: jsval where
  "project_alpha = JObj [(''id'', JStr ''p1''), (''name'', JStr ''Alpha'')]"

definition token_payload :: "string \<Rightarrow> jsval" where
  "token_payload t = JObj [(''access_token'', JStr t)]"

text \<open>A mock backend that answers every call of a kind with one fixed outcome.\<close>

definition mock_backend ::
  "js_error + jsval \<Rightarrow> js_error + jsval \<Rightarrow> js_error + jsval \<Rightarrow> backend" where
  "mock_backend tokens hubs projects =
     \<lparr>token_endpoint = (\<lambda>data. tokens),
      hubs_query = (\<lambda>client. hubs),
      projects_query = (\<lambda>client hubId. projects)\<rparr>"

section \<open>Sequencing and property reads\<close>

lemma and_then_Inr: "snd m = Inr x \<Longrightarrow> and_then m f = (fst m @ fst (f x), snd (f x))"
  by (cases m) (simp add: and_then_def split: prod.splits)

lemma and_then_Inl: "snd m = Inl e \<Longrightarrow> and_then m f = (fst m, Inl e)"
  by (cases m) (simp add: and_then_def)

lemma and_then_lift_Inr: "and_then (lift (Inr x)) f = f x"
  by (simp add: and_then_def lift_def split: prod.splits)

lemma and_then_lift_Inl: "and_then (lift (Inl e)) f = ([], Inl e)"
  by (simp add: and_then_def lift_def)

lemma and_then_emit: "and_then (emit ev) f = (ev # fst (f ()), snd (f ()))"
  by (simp add: and_then_def emit_def split: prod.splits)

lemma get_prop_ok: "\<not> nullish v \<Longrightarrow> get_prop v p = Inr (own_prop v p)"
  by (cases v) (simp_all add: get_prop_def)

lemma get_prop_nullish: "nullish v \<Longrightarrow> \<exists>error. get_prop v p = Inl error"
  by (cases v) (simp_all add: get_prop_def)

section \<open>The logging loop\<close>

lemma printableD: "printable v \<Longrightarrow> \<exists>s. to_string v = Inr s"
  by (simp add: printable_def split: sum.splits)

lemma log_hub_ok:
  assumes "loggable hub"
  shows "snd (log_hub hub k) = Inr () \<and> list_all is_console (fst (log_hub hub k))"
proof -
  from assms obtain a b where "to_string (own_prop hub ''id'') = Inr a"
    "to_string (own_prop hub ''name'') = Inr b" "\<not> nullish hub"
    unfolding loggable_def by (blast dest: printableD)
  then show ?thesis
    by (simp add: log_hub_def get_prop_ok and_then_lift_Inr emit_def)
qed

lemma log_each_ok:
  "list_all loggable hs \<Longrightarrow>
     snd (log_each hs k) = Inr () \<and> list_all is_console (fst (log_each hs k))"
proof (induction hs arbitrary: k)
  case Nil
  then show ?case by (simp add: pure_def)
next
  case (Cons h hs)
  then have h: "snd (log_hub h k) = Inr ()" "list_all is_console (fst (log_hub h k))"
    using log_hub_ok by simp_all
  from Cons have r: "snd (log_each hs (Suc k)) = Inr ()"
    "list_all is_console (fst (log_each hs (Suc k)))" by simp_all
  show ?case by (simp add: and_then_Inr [OF h(1)] h r)
qed

lemma projects_queries_console: "list_all is_console tr \<Longrightarrow> projects_queries tr = []"
  by (induction tr) (auto simp: projects_queries_def elim: is_console.elims)

section \<open>Step 3: the projects query\<close>

lemma projects_steps_trace: "fst (projects_steps be client hubId) = [ProjectsQuery client hubId]"
proof (cases "projects_query be client hubId")
  case (Inl e)
  then show ?thesis
    by (simp add: projects_steps_def getProjects_def and_then_def)
next
  case (Inr r)
  then show ?thesis
    by (simp add: projects_steps_def getProjects_def and_then_def lift_def pure_def Let_def
        split: sum.splits prod.splits)
qed

lemma projects_steps_throws:
  "projects_query be client hubId = Inl e \<Longrightarrow> snd (projects_steps be client hubId) = Inl e"
  by (simp add: projects_steps_def getProjects_def and_then_def)

lemma falsy_or_empty:
  "v = JUndefined \<or> v = JNull \<or> v = JArr [] \<Longrightarrow> \<not> truthy v \<or> length_is_zero v"
  by auto

lemma projects_steps_empty:
  assumes "projects_query be client hubId = Inr projectsResult"
      and "\<not> nullish projectsResult"
      and "projects_list projectsResult = JUndefined \<or> projects_list projectsResult = JNull
             \<or> projects_list projectsResult = JArr []"
      and "to_string hubId = Inr hub_text"
  shows "snd (projects_steps be client hubId) = Inr (no_projects_result hub_text)"
proof -
  have "snd (getProjects be client hubId) = Inr projectsResult"
    using assms(1) by (simp add: getProjects_def)
  moreover have "\<not> truthy (projects_list projectsResult) \<or> length_is_zero (projects_list projectsResult)"
    using assms(3) by (rule falsy_or_empty)
  ultimately show ?thesis
    using assms(2,4)
    by (simp add: projects_steps_def and_then_Inr get_prop_ok and_then_lift_Inr pure_def
        projects_list_def)
qed

lemma projects_steps_verbatim:
  assumes "projects_query be client hubId = Inr projectsResult"
      and "\<not> nullish projectsResult"
      and "projects_list projectsResult = JArr (p # ps)"
  shows "snd (projects_steps be client hubId) = Inr projectsResult"
proof -
  have "snd (getProjects be client hubId) = Inr projectsResult"
    using assms(1) by (simp add: getProjects_def)
  then show ?thesis
    using assms(2,3)
    by (simp add: projects_steps_def and_then_Inr get_prop_ok and_then_lift_Inr pure_def
        projects_list_def)
qed

section \<open>Steps 1 and 2: the hubs query and the selection\<close>

lemma query_steps_selected:
  assumes "createGraphQLClient token = Inr client"
      and "hubs_query be client = Inr hubsResult"
      and "\<not> nullish hubsResult"
      and "hubs_list hubsResult = JArr (hub # others)"
      and "list_all loggable (hub # others)"
  shows "\<exists>logs. list_all is_console logs \<and>
           query_steps be token =
             (HubsQuery client # logs @ [ProjectsQuery client (own_prop hub ''id'')],
              snd (projects_steps be client (own_prop hub ''id'')))"
proof -
  have hq: "snd (getHubs be client) = Inr hubsResult" "fst (getHubs be client) = [HubsQuery client]"
    using assms(2) by (simp_all add: getHubs_def)
  have le: "snd (log_each (hub # others) 0) = Inr ()"
    "list_all is_console (fst (log_each (hub # others) 0))"
    using log_each_ok [OF assms(5)] by simp_all
  have fe: "snd (forEach_hubs (JArr (hub # others))) = Inr (hub # others)"
    "fst (forEach_hubs (JArr (hub # others))) = fst (log_each (hub # others) 0)"
    using le(1) by (simp_all add: and_then_Inr pure_def del: log_each.simps)
  from assms(5) have "loggable hub" by simp
  then obtain t where t: "to_string (own_prop hub ''id'') = Inr t" and nn: "\<not> nullish hub"
    unfolding loggable_def by (blast dest: printableD)
  have "query_steps be token =
      (HubsQuery client # (ConsoleLog ''Available Hubs:'' # fst (log_each (hub # others) 0)
          @ [ConsoleLog (''Using Hub ID: '' @ t)]) @ [ProjectsQuery client (own_prop hub ''id'')],
       snd (projects_steps be client (own_prop hub ''id'')))"
    using assms(1,3,4) t nn
    by (simp add: query_steps_def and_then_lift_Inr and_then_Inr [OF hq(1)] hq(2) get_prop_ok
        hubs_list_def [symmetric] and_then_emit and_then_Inr [OF fe(1)] fe(2) first_elem_def
        projects_steps_trace del: log_each.simps forEach_hubs.simps)
  moreover have "list_all is_console (ConsoleLog ''Available Hubs:'' # fst (log_each (hub # others) 0)
          @ [ConsoleLog (''Using Hub ID: '' @ t)])"
    using le(2) by simp
  ultimately show ?thesis by blast
qed

lemma performGraphQLQuery_eq:
  "performGraphQLQuery be t =
     (case query_steps be t of
        (tr, Inl e) \<Rightarrow> (tr @ [ConsoleError ''Error during GraphQL query:'' e], Inr (query_error_result e))
      | (tr, Inr v) \<Rightarrow> (tr, Inr v))"
  by (simp add: performGraphQLQuery_def try_catch_def and_then_def emit_def pure_def
      split: prod.splits sum.splits)


lemma performGraphQLQuery_result:
  "snd (performGraphQLQuery be t) =
     (case snd (query_steps be t) of Inl e \<Rightarrow> Inr (query_error_result e) | Inr v \<Rightarrow> Inr v)"
  by (simp add: performGraphQLQuery_eq split: prod.splits sum.splits)

lemma performGraphQLQuery_projects_queries:
  "projects_queries (fst (performGraphQLQuery be t)) = projects_queries (fst (query_steps be t))"
  by (simp add: performGraphQLQuery_eq projects_queries_def split: prod.splits sum.splits)

section \<open>The orchestrator's results\<close>

text \<open>
  C1. When the hubs query returns a list with at least one hub (every entry a value the
  logging loop can print, as every hub is), the orchestrator makes exactly one projects
  query, and its \<^verbatim>\<open>hubId\<close> is the \<^verbatim>\<open>id\<close> of the first entry of the list: no other hub's
  id is ever queried, however many hubs follow the first and whatever the projects
  query answers.
\<close>

theorem first_hub_only:
  assumes "createGraphQLClient token = Inr client"
      and "hubs_query be client = Inr hubsResult"
      and "\<not> nullish hubsResult"
      and "hubs_list hubsResult = JArr (hub # others)"
      and "list_all loggable (hub # others)"
  shows "projects_queries (fst (performGraphQLQuery be token)) =
           [ProjectsQuery client (own_prop hub ''id'')]"
proof -
  from query_steps_selected [OF assms] obtain logs where
    logs: "list_all is_console logs" and
    qs: "fst (query_steps be token) =
           HubsQuery client # logs @ [ProjectsQuery client (own_prop hub ''id'')]"
    by auto
  have "projects_queries logs = []"
    using logs by (rule projects_queries_console)
  then have "projects_queries (fst (query_steps be token)) =
               [ProjectsQuery client (own_prop hub ''id'')]"
    by (simp add: qs projects_queries_def)
  then show ?thesis
    by (simp add: performGraphQLQuery_projects_queries)
qed

text \<open>The two hubs \<^verbatim>\<open>h1\<close> and \<^verbatim>\<open>h2\<close>: the one projects query is for \<^verbatim>\<open>h1\<close>.\<close>

theorem first_hub_only_witness:
  "createGraphQLClient (JStr ''tok'') = Inr (GraphQLClient ''Bearer tok'') \<and>
   hubs_query (mock_backend (Inr (token_payload ''tok'')) (Inr (hubs_payload [hub_one, hub_two]))
       (Inr (projects_payload [project_alpha]))) (GraphQLClient ''Bearer tok'') =
     Inr (hubs_payload [hub_one, hub_two]) \<and>
   \<not> nullish (hubs_payload [hub_one, hub_two]) \<and>
   hubs_list (hubs_payload [hub_one, hub_two]) = JArr [hub_one, hub_two] \<and>
   list_all loggable [hub_one, hub_two] \<and>
   projects_queries (fst (performGraphQLQuery
       (mock_backend (Inr (token_payload ''tok'')) (Inr (hubs_payload [hub_one, hub_two]))
          (Inr (projects_payload [project_alpha]))) (JStr ''tok''))) =
     [ProjectsQuery (GraphQLClient ''Bearer tok'') (JStr ''h1'')]"
proof -
  let ?be = "mock_backend (Inr (token_payload ''tok'')) (Inr (hubs_payload [hub_one, hub_two]))
       (Inr (projects_payload [project_alpha]))"
  have a: "createGraphQLClient (JStr ''tok'') = Inr (GraphQLClient ''Bearer tok'')"
    by (simp add: createGraphQLClient_def)
  have b: "hubs_query ?be (GraphQLClient ''Bearer tok'') = Inr (hubs_payload [hub_one, hub_two])"
    by (simp add: mock_backend_def)
  have c: "\<not> nullish (hubs_payload [hub_one, hub_two])"
    by (simp add: hubs_payload_def)
  have d: "hubs_list (hubs_payload [hub_one, hub_two]) = JArr [hub_one, hub_two]"
    by (simp add: hubs_list_def hubs_payload_def opt_prop_def)
  have e: "list_all loggable [hub_one, hub_two]"
    by (simp add: loggable_def printable_def hub_one_def hub_two_def)
  have "own_prop hub_one ''id'' = JStr ''h1''"
    by (simp add: hub_one_def)
  with first_hub_only [OF a b c d e] a b c d e show ?thesis
    by simp
qed

text \<open>
  C2. When the hubs list of the hubs-query result is absent (\<^verbatim>\<open>undefined\<close> or \<^verbatim>\<open>null\<close>)
  or empty, the orchestrator returns \<^verbatim>\<open>{ error: "No hubs found or access denied." }\<close>
  as a value, not as a thrown error, and its whole trace is the hubs query: there is
  no projects query.
\<close>

theorem no_hubs_result_returned:
  assumes "createGraphQLClient token = Inr client"
      and "hubs_query be client = Inr hubsResult"
      and "\<not> nullish hubsResult"
      and "hubs_list hubsResult = JUndefined \<or> hubs_list hubsResult = JNull
             \<or> hubs_list hubsResult = JArr []"
  shows "performGraphQLQuery be token =
           ([HubsQuery client], Inr (JObj [(''error'', JStr ''No hubs found or access denied.'')]))"
proof -
  have hq: "snd (getHubs be client) = Inr hubsResult" "fst (getHubs be client) = [HubsQuery client]"
    using assms(2) by (simp_all add: getHubs_def)
  have "\<not> truthy (hubs_list hubsResult) \<or> length_is_zero (hubs_list hubsResult)"
    using assms(4) by (rule falsy_or_empty)
  then have "query_steps be token = ([HubsQuery client], Inr no_hubs_result)"
    using assms(1,3)
    by (simp add: query_steps_def and_then_lift_Inr and_then_Inr [OF hq(1)] hq(2) get_prop_ok
        hubs_list_def [symmetric] pure_def)
  then show ?thesis
    by (simp add: performGraphQLQuery_eq no_hubs_result_def)
qed

text \<open>An empty list of hubs, and a result with no \<^verbatim>\<open>hubs\<close> at all.\<close>

theorem no_hubs_result_returned_witness:
  "createGraphQLClient (JStr ''tok'') = Inr (GraphQLClient ''Bearer tok'') \<and>
   \<not> nullish (hubs_payload []) \<and>
   hubs_list (hubs_payload []) = JArr [] \<and>
   performGraphQLQuery
       (mock_backend (Inr (token_payload ''tok'')) (Inr (hubs_payload []))
          (Inr (projects_payload [project_alpha]))) (JStr ''tok'') =
     ([HubsQuery (GraphQLClient ''Bearer tok'')],
      Inr (JObj [(''error'', JStr ''No hubs found or access denied.'')])) \<and>
   \<not> nullish (JObj []) \<and>
   hubs_list (JObj []) = JUndefined \<and>
   performGraphQLQuery
       (mock_backend (Inr (token_payload ''tok'')) (Inr (JObj []))
          (Inr (projects_payload [project_alpha]))) (JStr ''tok'') =
     ([HubsQuery (GraphQLClient ''Bearer tok'')],
      Inr (JObj [(''error'', JStr ''No hubs found or access denied.'')]))"
proof -
  have a: "createGraphQLClient (JStr ''tok'') = Inr (GraphQLClient ''Bearer tok'')"
    by (simp add: createGraphQLClient_def)
  have b: "hubs_query (mock_backend t (Inr r) p) (GraphQLClient ''Bearer tok'') = Inr r" for t r p
    by (simp add: mock_backend_def)
  have c: "\<not> nullish (hubs_payload [])" "\<not> nullish (JObj [])"
    by (simp_all add: hubs_payload_def)
  have d: "hubs_list (hubs_payload []) = JArr []" "hubs_list (JObj []) = JUndefined"
    by (simp_all add: hubs_list_def hubs_payload_def opt_prop_def)
  show ?thesis
    using no_hubs_result_returned [OF a b c(1)] no_hubs_result_returned [OF a b c(2)] a c d
    by simp
qed

text \<open>
  C5. When a hub is selected and the projects list of its projects-query result is
  absent (\<^verbatim>\<open>undefined\<close> or \<^verbatim>\<open>null\<close>) or empty, the orchestrator returns
  \<^verbatim>\<open>{ error: "No projects found in hub {hubId}." }\<close>, where the text put in place of
  \<^verbatim>\<open>{hubId}\<close> is the selected hub's own \<^verbatim>\<open>id\<close> as a string (the \<^verbatim>\<open>id\<close> itself when it
  is a string).
\<close>

theorem no_projects_message:
  assumes "createGraphQLClient token = Inr client"
      and "hubs_query be client = Inr hubsResult"
      and "\<not> nullish hubsResult"
      and "hubs_list hubsResult = JArr (hub # others)"
      and "list_all loggable (hub # others)"
      and "projects_query be client (own_prop hub ''id'') = Inr projectsResult"
      and "\<not> nullish projectsResult"
      and "projects_list projectsResult = JUndefined \<or> projects_list projectsResult = JNull
             \<or> projects_list projectsResult = JArr []"
      and "to_string (own_prop hub ''id'') = Inr hub_text"
  shows "snd (performGraphQLQuery be token) =
           Inr (JObj [(''error'', JStr (''No projects found in hub '' @ hub_text @ ''.''))])"
proof -
  from query_steps_selected [OF assms(1-5)]
  have "snd (query_steps be token) = snd (projects_steps be client (own_prop hub ''id''))"
    by auto
  also have "\<dots> = Inr (no_projects_result hub_text)"
    using assms(6-9) by (rule projects_steps_empty)
  finally show ?thesis
    by (simp add: performGraphQLQuery_result no_projects_result_def)
qed

text \<open>Hub \<^verbatim>\<open>h1\<close> with zero projects gives \<^verbatim>\<open>No projects found in hub h1.\<close>\<close>

theorem no_projects_message_witness:
  "createGraphQLClient (JStr ''tok'') = Inr (GraphQLClient ''Bearer tok'') \<and>
   \<not> nullish (hubs_payload [hub_one, hub_two]) \<and>
   hubs_list (hubs_payload [hub_one, hub_two]) = JArr [hub_one, hub_two] \<and>
   list_all loggable [hub_one, hub_two] \<and>
   \<not> nullish (projects_payload []) \<and>
   projects_list (projects_payload []) = JArr [] \<and>
   to_string (own_prop hub_one ''id'') = Inr ''h1'' \<and>
   snd (performGraphQLQuery
       (mock_backend (Inr (token_payload ''tok'')) (Inr (hubs_payload [hub_one, hub_two]))
          (Inr (projects_payload []))) (JStr ''tok'')) =
     Inr (JObj [(''error'', JStr ''No projects found in hub h1.'')])"
proof -
  let ?be = "mock_backend (Inr (token_payload ''tok'')) (Inr (hubs_payload [hub_one, hub_two]))
       (Inr (projects_payload []))"
  have a: "createGraphQLClient (JStr ''tok'') = Inr (GraphQLClient ''Bearer tok'')"
    by (simp add: createGraphQLClient_def)
  have b: "hubs_query ?be (GraphQLClient ''Bearer tok'') = Inr (hubs_payload [hub_one, hub_two])"
    by (simp add: mock_backend_def)
  have c: "\<not> nullish (hubs_payload [hub_one, hub_two])"
    by (simp add: hubs_payload_def)
  have d: "hubs_list (hubs_payload [hub_one, hub_two]) = JArr [hub_one, hub_two]"
    by (simp add: hubs_list_def hubs_payload_def opt_prop_def)
  have e: "list_all loggable [hub_one, hub_two]"
    by (simp add: loggable_def printable_def hub_one_def hub_two_def)
  have f: "projects_query ?be (GraphQLClient ''Bearer tok'') (own_prop hub_one ''id'') =
             Inr (projects_payload [])"
    by (simp add: mock_backend_def)
  have g: "\<not> nullish (projects_payload [])"
    by (simp add: projects_payload_def)
  have h: "projects_list (projects_payload []) = JArr []"
    by (simp add: projects_list_def projects_payload_def opt_prop_def)
  have i: "to_string (own_prop hub_one ''id'') = Inr ''h1''"
    by (simp add: hub_one_def)
  from h have h': "projects_list (projects_payload []) = JUndefined
      \<or> projects_list (projects_payload []) = JNull \<or> projects_list (projects_payload []) = JArr []"
    by simp
  show ?thesis
    using no_projects_message [OF a b c d e f g h' i] a c d e g h i by simp
qed

text \<open>
  C6. When the projects list of the selected hub is not empty, the orchestrator
  returns the very value that the projects query produced: nothing is removed from
  it and nothing is reshaped.
\<close>

theorem projects_returned_verbatim:
  assumes "createGraphQLClient token = Inr client"
      and "hubs_query be client = Inr hubsResult"
      and "\<not> nullish hubsResult"
      and "hubs_list hubsResult = JArr (hub # others)"
      and "list_all loggable (hub # others)"
      and "projects_query be client (own_prop hub ''id'') = Inr projectsResult"
      and "\<not> nullish projectsResult"
      and "projects_list projectsResult = JArr (project # rest)"
  shows "snd (performGraphQLQuery be token) = Inr projectsResult"
proof -
  from query_steps_selected [OF assms(1-5)]
  have "snd (query_steps be token) = snd (projects_steps be client (own_prop hub ''id''))"
    by auto
  also have "\<dots> = Inr projectsResult"
    using assms(6-8) by (rule projects_steps_verbatim)
  finally show ?thesis
    by (simp add: performGraphQLQuery_result)
qed

text \<open>Hub \<^verbatim>\<open>h1\<close> with the project \<^verbatim>\<open>p1\<close>, \<^verbatim>\<open>Alpha\<close>: the whole payload comes back.\<close>

theorem projects_returned_verbatim_witness:
  "createGraphQLClient (JStr ''tok'') = Inr (GraphQLClient ''Bearer tok'') \<and>
   \<not> nullish (hubs_payload [hub_one]) \<and>
   hubs_list (hubs_payload [hub_one]) = JArr [hub_one] \<and>
   list_all loggable [hub_one] \<and>
   \<not> nullish (projects_payload [project_alpha]) \<and>
   projects_list (projects_payload [project_alpha]) = JArr [project_alpha] \<and>
   snd (performGraphQLQuery
       (mock_backend (Inr (token_payload ''tok'')) (Inr (hubs_payload [hub_one]))
          (Inr (projects_payload [project_alpha]))) (JStr ''tok'')) =
     Inr (JObj [(''hub'', JObj [(''projects'', JObj [(''results'',
            JArr [JObj [(''id'', JStr ''p1''), (''name'', JStr ''Alpha'')]])])])])"
proof -
  let ?be = "mock_backend (Inr (token_payload ''tok'')) (Inr (hubs_payload [hub_one]))
       (Inr (projects_payload [project_alpha]))"
  have a: "createGraphQLClient (JStr ''tok'') = Inr (GraphQLClient ''Bearer tok'')"
    by (simp add: createGraphQLClient_def)
  have b: "hubs_query ?be (GraphQLClient ''Bearer tok'') = Inr (hubs_payload [hub_one])"
    by (simp add: mock_backend_def)
  have c: "\<not> nullish (hubs_payload [hub_one])"
    by (simp add: hubs_payload_def)
  have d: "hubs_list (hubs_payload [hub_one]) = JArr [hub_one]"
    by (simp add: hubs_list_def hubs_payload_def opt_prop_def)
  have e: "list_all loggable [hub_one]"
    by (simp add: loggable_def printable_def hub_one_def)
  have f: "projects_query ?be (GraphQLClient ''Bearer tok'') (own_prop hub_one ''id'') =
             Inr (projects_payload [project_alpha])"
    by (simp add: mock_backend_def)
  have g: "\<not> nullish (projects_payload [project_alpha])"
    by (simp add: projects_payload_def)
  have h: "projects_list (projects_payload [project_alpha]) = JArr [project_alpha]"
    by (simp add: projects_list_def projects_payload_def opt_prop_def)
  have i: "projects_payload [project_alpha] =
      JObj [(''hub'', JObj [(''projects'', JObj [(''results'',
            JArr [JObj [(''id'', JStr ''p1''), (''name'', JStr ''Alpha'')]])])])]"
    by (simp add: projects_payload_def project_alpha_def)
  show ?thesis
    using projects_returned_verbatim [OF a b c d e f g h] a c d e g h i by simp
qed

section \<open>The callback handler\<close>

lemma performGraphQLQuery_returns: "\<exists>result. snd (performGraphQLQuery be t) = Inr result"
  by (simp add: performGraphQLQuery_result split: sum.splits)

lemma token_exchange_rejected:
  assumes "to_string code = Inr code_text"
      and "token_endpoint be (token_request_body cfg code_text) = Inl error"
  shows "token_exchange cfg be code = ([TokenPost (token_request_body cfg code_text)], Inl error)"
proof -
  have "snd (axios_post be (token_request_body cfg code_text)) = Inl error"
    "fst (axios_post be (token_request_body cfg code_text)) =
       [TokenPost (token_request_body cfg code_text)]"
    using assms(2) by (simp_all add: axios_post_def)
  then show ?thesis
    using assms(1) by (simp add: token_exchange_def and_then_lift_Inr and_then_Inl)
qed

lemma token_exchange_returned:
  assumes "to_string code = Inr code_text"
      and "token_endpoint be (token_request_body cfg code_text) = Inr tokens"
  shows "token_exchange cfg be code =
           ([TokenPost (token_request_body cfg code_text)], get_prop tokens ''access_token'')"
proof -
  have "snd (axios_post be (token_request_body cfg code_text)) = Inr tokens"
    "fst (axios_post be (token_request_body cfg code_text)) =
       [TokenPost (token_request_body cfg code_text)]"
    using assms(2) by (simp_all add: axios_post_def)
  then show ?thesis
    using assms(1) by (simp add: token_exchange_def and_then_lift_Inr and_then_Inr lift_def)
qed

lemma callback_exchange_failed:
  assumes "truthy code"
      and "token_exchange cfg be code = (tr, Inl error)"
  shows "callback_handler cfg be code sess = token_error_reply sess tr error"
  using assms by (simp add: callback_handler_def)

lemma callback_after_exchange:
  assumes "truthy code"
      and "token_exchange cfg be code = (tr, Inr token)"
      and "snd (performGraphQLQuery be token) = Inr result"
  shows "callback_handler cfg be code sess =
           \<lparr>response = Json 200 result,
            session_after = sess\<lparr>accessToken := token\<rparr>,
            trace = tr @ SessionWrite token # fst (performGraphQLQuery be token)\<rparr>"
  using assms by (cases "performGraphQLQuery be token") (simp add: callback_handler_def Let_def)

lemma query_steps_hubs_rejected:
  assumes "createGraphQLClient token = Inr client"
      and "hubs_query be client = Inl error"
  shows "snd (query_steps be token) = Inl error"
proof -
  have "snd (getHubs be client) = Inl error"
    using assms(2) by (simp add: getHubs_def)
  then show ?thesis
    using assms(1) by (simp add: query_steps_def and_then_lift_Inr and_then_Inl)
qed

text \<open>
  C4. When the hubs query or the projects query throws, the orchestrator returns an
  object with \<^verbatim>\<open>error\<close> and \<^verbatim>\<open>details\<close>, the \<^verbatim>\<open>details\<close> being the thrown error's message;
  the callback handler sends it with status 200 (the error is not thrown on to become
  a 500); and that object differs from the no-hubs object and from every no-projects
  object.
\<close>

theorem query_error_reported:
  assumes "truthy code"
      and "token_exchange cfg be code = (tr, Inr token)"
      and "createGraphQLClient token = Inr client"
      and "hubs_query be client = Inl error \<or>
           (hubs_query be client = Inr hubsResult \<and> \<not> nullish hubsResult \<and>
            hubs_list hubsResult = JArr (hub # others) \<and> list_all loggable (hub # others) \<and>
            projects_query be client (own_prop hub ''id'') = Inl error)"
  shows "snd (performGraphQLQuery be token) =
           Inr (JObj [(''error'', JStr ''An error occurred during the GraphQL query''),
                      (''details'', JStr (message error))]) \<and>
         response (callback_handler cfg be code sess) =
           Json 200 (JObj [(''error'', JStr ''An error occurred during the GraphQL query''),
                           (''details'', JStr (message error))]) \<and>
         JObj [(''error'', JStr ''An error occurred during the GraphQL query''),
               (''details'', JStr (message error))] \<noteq> no_hubs_result \<and>
         (\<forall>hub_text.
            JObj [(''error'', JStr ''An error occurred during the GraphQL query''),
                  (''details'', JStr (message error))] \<noteq> no_projects_result hub_text)"
proof -
  have thrown: "snd (query_steps be token) = Inl error"
    using assms(4)
  proof
    assume "hubs_query be client = Inl error"
    with assms(3) show ?thesis by (rule query_steps_hubs_rejected)
  next
    assume h: "hubs_query be client = Inr hubsResult \<and> \<not> nullish hubsResult \<and>
            hubs_list hubsResult = JArr (hub # others) \<and> list_all loggable (hub # others) \<and>
            projects_query be client (own_prop hub ''id'') = Inl error"
    then have "snd (query_steps be token) = snd (projects_steps be client (own_prop hub ''id''))"
      using query_steps_selected [OF assms(3), of be hubsResult hub others] by auto
    also have "\<dots> = Inl error"
      using h by (simp add: projects_steps_throws)
    finally show ?thesis .
  qed
  then have res: "snd (performGraphQLQuery be token) = Inr (query_error_result error)"
    by (simp add: performGraphQLQuery_result)
  have "response (callback_handler cfg be code sess) = Json 200 (query_error_result error)"
    using callback_after_exchange [OF assms(1,2) res] by simp
  with res show ?thesis
    by (simp add: query_error_result_def no_hubs_result_def no_projects_result_def)
qed

text \<open>A hubs query that is rejected, and a projects query that is rejected.\<close>

theorem query_error_reported_witness:
  "truthy (JStr ''abc'') \<and>
   createGraphQLClient (JStr ''tok'') = Inr (GraphQLClient ''Bearer tok'') \<and>
   response (callback_handler sample_config
       (mock_backend (Inr (token_payload ''tok'')) (Inl (RequestError ''Network down''))
          (Inr (projects_payload [project_alpha])))
       (JStr ''abc'') no_session) =
     Json 200 (JObj [(''error'', JStr ''An error occurred during the GraphQL query''),
                     (''details'', JStr ''Network down'')]) \<and>
   \<not> nullish (hubs_payload [hub_one, hub_two]) \<and>
   hubs_list (hubs_payload [hub_one, hub_two]) = JArr [hub_one, hub_two] \<and>
   list_all loggable [hub_one, hub_two] \<and>
   response (callback_handler sample_config
       (mock_backend (Inr (token_payload ''tok'')) (Inr (hubs_payload [hub_one, hub_two]))
          (Inl (RequestError ''Rate limit'')))
       (JStr ''abc'') no_session) =
     Json 200 (JObj [(''error'', JStr ''An error occurred during the GraphQL query''),
                     (''details'', JStr ''Rate limit'')])"
proof -
  let ?be1 = "mock_backend (Inr (token_payload ''tok'')) (Inl (RequestError ''Network down''))
          (Inr (projects_payload [project_alpha]))"
  let ?be2 = "mock_backend (Inr (token_payload ''tok'')) (Inr (hubs_payload [hub_one, hub_two]))
          (Inl (RequestError ''Rate limit''))"
  have t: "truthy (JStr ''abc'')" by simp
  have x: "token_exchange sample_config (mock_backend (Inr (token_payload ''tok'')) h p) (JStr ''abc'')
      = ([TokenPost (token_request_body sample_config ''abc'')], Inr (JStr ''tok''))" for h p
    by (simp add: token_exchange_returned [of _ "''abc''" _ _ "token_payload ''tok''"]
        mock_backend_def token_payload_def get_prop_def)
  have a: "createGraphQLClient (JStr ''tok'') = Inr (GraphQLClient ''Bearer tok'')"
    by (simp add: createGraphQLClient_def)
  have b1: "hubs_query ?be1 (GraphQLClient ''Bearer tok'') = Inl (RequestError ''Network down'')"
    by (simp add: mock_backend_def)
  have c: "\<not> nullish (hubs_payload [hub_one, hub_two])"
    by (simp add: hubs_payload_def)
  have d: "hubs_list (hubs_payload [hub_one, hub_two]) = JArr [hub_one, hub_two]"
    by (simp add: hubs_list_def hubs_payload_def opt_prop_def)
  have e: "list_all loggable [hub_one, hub_two]"
    by (simp add: loggable_def printable_def hub_one_def hub_two_def)
  have b2: "hubs_query ?be2 (GraphQLClient ''Bearer tok'') = Inr (hubs_payload [hub_one, hub_two]) \<and>
      \<not> nullish (hubs_payload [hub_one, hub_two]) \<and>
      hubs_list (hubs_payload [hub_one, hub_two]) = JArr (hub_one # [hub_two]) \<and>
      list_all loggable (hub_one # [hub_two]) \<and>
      projects_query ?be2 (GraphQLClient ''Bearer tok'') (own_prop hub_one ''id'') =
        Inl (RequestError ''Rate limit'')"
    using c d e by (simp add: mock_backend_def)
  show ?thesis
    using query_error_reported [OF t x a disjI1, OF b1, of no_session]
      query_error_reported [OF t x a disjI2, OF b2, of no_session] t a c d e
    by simp
qed

text \<open>
  C3, as amended. In a callback request with a code, every failure of the token exchange
  that raises an error in the handler is answered with status 500 and the body
  \<^verbatim>\<open>{ error: "Failed to obtain access token", details }\<close>, the \<^verbatim>\<open>details\<close> being that error's
  message: the call itself throwing (a network error, a status outside 2xx, a body the
  HTTP client rejects), and a returned body that is \<^verbatim>\<open>null\<close> or \<^verbatim>\<open>undefined\<close>, where the
  read of \<^verbatim>\<open>access_token\<close> throws. Every other returned body, malformed or not, is not
  treated as a failure: the handler runs the orchestrator with the body's
  \<^verbatim>\<open>access_token\<close> and answers with status 200 and the orchestrator's result.
\<close>

theorem token_failure_500:
  assumes "truthy code"
      and "to_string code = Inr code_text"
  shows "(\<forall>error. token_endpoint be (token_request_body cfg code_text) = Inl error \<longrightarrow>
            response (callback_handler cfg be code sess) =
              Json 500 (JObj [(''error'', JStr ''Failed to obtain access token''),
                              (''details'', JStr (message error))])) \<and>
         (\<forall>tokens. token_endpoint be (token_request_body cfg code_text) = Inr tokens \<and>
              nullish tokens \<longrightarrow>
            (\<exists>error. get_prop tokens ''access_token'' = Inl error \<and>
               response (callback_handler cfg be code sess) =
                 Json 500 (JObj [(''error'', JStr ''Failed to obtain access token''),
                                 (''details'', JStr (message error))]))) \<and>
         (\<forall>tokens. token_endpoint be (token_request_body cfg code_text) = Inr tokens \<and>
              \<not> nullish tokens \<longrightarrow>
            (\<exists>result.
               snd (performGraphQLQuery be (own_prop tokens ''access_token'')) = Inr result \<and>
               response (callback_handler cfg be code sess) = Json 200 result))"
proof -
  let ?r = "callback_handler cfg be code sess"
  let ?body = "token_request_body cfg code_text"
  have thrown: "response ?r =
      Json 500 (JObj [(''error'', JStr ''Failed to obtain access token''),
                      (''details'', JStr (message error))])"
    if "token_exchange cfg be code = ([TokenPost ?body], Inl error)" for error
    using callback_exchange_failed [OF assms(1) that, of sess]
    by (simp add: token_error_reply_def)
  have rejected: "response ?r =
      Json 500 (JObj [(''error'', JStr ''Failed to obtain access token''),
                      (''details'', JStr (message error))])"
    if "token_endpoint be ?body = Inl error" for error
    using thrown token_exchange_rejected [OF assms(2) that] by simp
  have null_body: "\<exists>error. get_prop tokens ''access_token'' = Inl error \<and>
      response ?r =
        Json 500 (JObj [(''error'', JStr ''Failed to obtain access token''),
                        (''details'', JStr (message error))])"
    if "token_endpoint be ?body = Inr tokens" and "nullish tokens" for tokens
  proof -
    from that(2) obtain error where e: "get_prop tokens ''access_token'' = Inl error"
      using get_prop_nullish by blast
    then have "token_exchange cfg be code = ([TokenPost ?body], Inl error)"
      using token_exchange_returned [OF assms(2) that(1)] by simp
    then show ?thesis
      using thrown e by blast
  qed
  have returned: "\<exists>result.
      snd (performGraphQLQuery be (own_prop tokens ''access_token'')) = Inr result \<and>
      response ?r = Json 200 result"
    if "token_endpoint be ?body = Inr tokens" and "\<not> nullish tokens" for tokens
  proof -
    have x: "token_exchange cfg be code =
        ([TokenPost ?body], Inr (own_prop tokens ''access_token''))"
      using token_exchange_returned [OF assms(2) that(1)] that(2) by (simp add: get_prop_ok)
    obtain result where
      res: "snd (performGraphQLQuery be (own_prop tokens ''access_token'')) = Inr result"
      using performGraphQLQuery_returns by blast
    then have "response ?r = Json 200 result"
      using callback_after_exchange [OF assms(1) x, of result sess] by simp
    with res show ?thesis by blast
  qed
  show ?thesis
    using rejected null_body returned by blast
qed

text \<open>
  A token endpoint that answers 401, one that returns the body \<^verbatim>\<open>null\<close>, and one that
  returns the body \<^verbatim>\<open>{}\<close>.
\<close>

theorem token_failure_500_witness:
  "truthy (JStr ''abc'') \<and>
   to_string (JStr ''abc'') = Inr ''abc'' \<and>
   response (callback_handler sample_config
       (mock_backend (Inl (RequestError ''Request failed with status code 401''))
          (Inr (hubs_payload [hub_one])) (Inr (projects_payload [project_alpha])))
       (JStr ''abc'') no_session) =
     Json 500 (JObj [(''error'', JStr ''Failed to obtain access token''),
                     (''details'', JStr ''Request failed with status code 401'')]) \<and>
   nullish JNull \<and>
   response (callback_handler sample_config
       (mock_backend (Inr JNull)
          (Inr (hubs_payload [hub_one])) (Inr (projects_payload [project_alpha])))
       (JStr ''abc'') no_session) =
     Json 500 (JObj [(''error'', JStr ''Failed to obtain access token''),
                     (''details'',
                      JStr (''Cannot read properties of null (reading '' @ [CHR 0x27] @
                              ''access_token'' @ [CHR 0x27] @ '')''))]) \<and>
   \<not> nullish (JObj []) \<and>
   status_of (response (callback_handler sample_config
       (mock_backend (Inr (JObj []))
          (Inr (hubs_payload [hub_one])) (Inr (projects_payload [project_alpha])))
       (JStr ''abc'') no_session)) = 200"
proof -
  have a: "truthy (JStr ''abc'')" and b: "to_string (JStr ''abc'') = Inr ''abc''"
    by simp_all
  have e: "token_endpoint (mock_backend outcome h p) (token_request_body sample_config ''abc'') =
      outcome" for outcome h p
    by (simp add: mock_backend_def)
  let ?b1 = "mock_backend (Inl (RequestError ''Request failed with status code 401''))
          (Inr (hubs_payload [hub_one])) (Inr (projects_payload [project_alpha]))"
  let ?b2 = "mock_backend (Inr JNull)
          (Inr (hubs_payload [hub_one])) (Inr (projects_payload [project_alpha]))"
  let ?b3 = "mock_backend (Inr (JObj []))
          (Inr (hubs_payload [hub_one])) (Inr (projects_payload [project_alpha]))"
  have 1: "response (callback_handler sample_config
       (mock_backend (Inl (RequestError ''Request failed with status code 401''))
          (Inr (hubs_payload [hub_one])) (Inr (projects_payload [project_alpha])))
       (JStr ''abc'') no_session) =
     Json 500 (JObj [(''error'', JStr ''Failed to obtain access token''),
                     (''details'', JStr ''Request failed with status code 401'')])"
    using token_failure_500 [OF a b, of ?b1 sample_config no_session] e by simp
  have 2: "response (callback_handler sample_config
       (mock_backend (Inr JNull)
          (Inr (hubs_payload [hub_one])) (Inr (projects_payload [project_alpha])))
       (JStr ''abc'') no_session) =
     Json 500 (JObj [(''error'', JStr ''Failed to obtain access token''),
                     (''details'',
                      JStr (''Cannot read properties of null (reading '' @ [CHR 0x27] @
                              ''access_token'' @ [CHR 0x27] @ '')''))])"
  proof -
    have "\<exists>error. get_prop JNull ''access_token'' = Inl error \<and>
        response (callback_handler sample_config
         (mock_backend (Inr JNull)
            (Inr (hubs_payload [hub_one])) (Inr (projects_payload [project_alpha])))
         (JStr ''abc'') no_session) =
        Json 500 (JObj [(''error'', JStr ''Failed to obtain access token''),
                        (''details'', JStr (message error))])"
      using token_failure_500 [OF a b, of ?b2 sample_config no_session] e by simp
    then show ?thesis
      by (auto simp add: get_prop_def)
  qed
  have 3: "status_of (response (callback_handler sample_config
       (mock_backend (Inr (JObj []))
          (Inr (hubs_payload [hub_one])) (Inr (projects_payload [project_alpha])))
       (JStr ''abc'') no_session)) = 200"
  proof -
    have "\<exists>result. response (callback_handler sample_config
         (mock_backend (Inr (JObj []))
            (Inr (hubs_payload [hub_one])) (Inr (projects_payload [project_alpha])))
         (JStr ''abc'') no_session) = Json 200 result"
      using token_failure_500 [OF a b, of ?b3 sample_config no_session] e by (simp, blast)
    then show ?thesis by auto
  qed
  show ?thesis
    using a b 1 2 3 by simp
qed

text \<open>
  C3 as stated also promises the 500 for a malformed response body. The handler does
  not inspect the body it gets. When the call returns the body \<^verbatim>\<open>{}\<close>, with no
  \<^verbatim>\<open>access_token\<close> in it, or a body that is not JSON at all and comes as a string, the
  handler goes on with the token \<^verbatim>\<open>undefined\<close> and answers with status 200 and what
  the orchestrator returned.
\<close>

theorem malformed_token_body_counterexample:
  "token_endpoint
       (mock_backend (Inr (JObj [])) (Inl (RequestError ''Unauthorized''))
          (Inl (RequestError ''Unauthorized'')))
       (token_request_body sample_config ''abc'') = Inr (JObj []) \<and>
   response (callback_handler sample_config
       (mock_backend (Inr (JObj [])) (Inl (RequestError ''Unauthorized''))
          (Inl (RequestError ''Unauthorized'')))
       (JStr ''abc'') no_session) =
     Json 200 (JObj [(''error'', JStr ''An error occurred during the GraphQL query''),
                     (''details'', JStr ''Unauthorized'')]) \<and>
   response (callback_handler sample_config
       (mock_backend (Inr (JStr ''<html>Bad Gateway</html>'')) (Inl (RequestError ''Unauthorized''))
          (Inl (RequestError ''Unauthorized'')))
       (JStr ''abc'') no_session) =
     Json 200 (JObj [(''error'', JStr ''An error occurred during the GraphQL query''),
                     (''details'', JStr ''Unauthorized'')])"
proof -
  have e: "token_endpoint (mock_backend (Inr body) h p) (token_request_body sample_config ''abc'') =
      Inr body" for body h p
    by (simp add: mock_backend_def)
  have c: "createGraphQLClient JUndefined = Inr (GraphQLClient ''Bearer undefined'')"
    by (simp add: createGraphQLClient_def)
  have r: "response (callback_handler sample_config
        (mock_backend (Inr body) (Inl (RequestError ''Unauthorized'')) p) (JStr ''abc'') no_session) =
      Json 200 (query_error_result (RequestError ''Unauthorized''))"
    if "get_prop body ''access_token'' = Inr JUndefined" for body p
  proof -
    let ?be = "mock_backend (Inr body) (Inl (RequestError ''Unauthorized'')) p"
    have x: "token_exchange sample_config ?be (JStr ''abc'') =
        ([TokenPost (token_request_body sample_config ''abc'')], Inr JUndefined)"
      using token_exchange_returned [OF _ e, of "JStr ''abc''" body] that by simp
    have h: "hubs_query ?be (GraphQLClient ''Bearer undefined'') =
        Inl (RequestError ''Unauthorized'')"
      by (simp add: mock_backend_def)
    have "snd (performGraphQLQuery ?be JUndefined) =
        Inr (query_error_result (RequestError ''Unauthorized''))"
      by (simp add: performGraphQLQuery_result query_steps_hubs_rejected [OF c h])
    then show ?thesis
      using callback_after_exchange [OF _ x, of _ no_session] by simp
  qed
  have "get_prop (JObj []) ''access_token'' = Inr JUndefined"
    "get_prop (JStr ''<html>Bad Gateway</html>'') ''access_token'' = Inr JUndefined"
    by (simp_all add: get_prop_def)
  then show ?thesis
    using e r by (simp add: query_error_result_def)
qed

text \<open>
  C7. When the \<^verbatim>\<open>code\<close> query parameter of a callback request is absent, the reply is
  status 400 with the body \<^verbatim>\<open>{ error: "Authorization code not found" }\<close>; the trace is
  empty, so no token exchange and no GraphQL request is made, and the session is left
  as it was.
\<close>

theorem missing_code_400:
  assumes "code = JUndefined"
  shows "callback_handler cfg be code sess =
           \<lparr>response = Json 400 (JObj [(''error'', JStr ''Authorization code not found'')]),
            session_after = sess,
            trace = []\<rparr>"
  using assms by (simp add: callback_handler_def)

text \<open>A callback request with no \<^verbatim>\<open>code\<close>, in a fresh session.\<close>

theorem missing_code_400_witness:
  "callback_handler sample_config
       (mock_backend (Inr (token_payload ''tok'')) (Inr (hubs_payload [hub_one]))
          (Inr (projects_payload [project_alpha])))
       JUndefined no_session =
     \<lparr>response = Json 400 (JObj [(''error'', JStr ''Authorization code not found'')]),
      session_after = \<lparr>accessToken = JUndefined\<rparr>,
      trace = []\<rparr>"
  using missing_code_400 [of JUndefined sample_config
      "mock_backend (Inr (token_payload ''tok'')) (Inr (hubs_payload [hub_one]))
          (Inr (projects_payload [project_alpha]))" no_session]
  by (simp add: no_session_def)

section \<open>Who writes the session\<close>

lemma quiet_and_then:
  assumes "session_writes (fst m) = []"
      and "\<And>x. session_writes (fst (f x)) = []"
  shows "session_writes (fst (and_then m f)) = []"
proof (cases "snd m")
  case (Inl e)
  then show ?thesis using assms(1) by (simp add: and_then_Inl)
next
  case (Inr x)
  then show ?thesis using assms by (simp add: and_then_Inr session_writes_def)
qed

lemma quiet_lift: "session_writes (fst (lift r)) = []"
  by (simp add: lift_def session_writes_def)

lemma quiet_pure: "session_writes (fst (pure x)) = []"
  by (simp add: pure_def session_writes_def)

lemma quiet_log: "session_writes (fst (emit (ConsoleLog line))) = []"
  by (simp add: emit_def session_writes_def)

lemma quiet_log_hub: "session_writes (fst (log_hub hub k)) = []"
  unfolding log_hub_def by (intro quiet_and_then quiet_lift quiet_log)

lemma quiet_log_each: "session_writes (fst (log_each hs k)) = []"
proof (induction hs arbitrary: k)
  case Nil
  show ?case by (simp add: quiet_pure)
next
  case (Cons h hs)
  show ?case
    unfolding log_each.simps by (intro quiet_and_then quiet_log_hub Cons.IH)
qed

lemma quiet_forEach_hubs: "session_writes (fst (forEach_hubs v)) = []"
proof (cases v)
  case (JArr hs)
  show ?thesis
    unfolding JArr forEach_hubs.simps by (intro quiet_and_then quiet_log_each quiet_pure)
qed (simp_all add: quiet_lift)

lemma quiet_projects_steps: "session_writes (fst (projects_steps be client hubId)) = []"
  by (simp add: projects_steps_trace session_writes_def)

lemma quiet_getHubs: "session_writes (fst (getHubs be client)) = []"
  by (simp add: getHubs_def session_writes_def)

lemma quiet_query_steps: "session_writes (fst (query_steps be t)) = []"
  unfolding query_steps_def Let_def
  by (intro quiet_and_then quiet_lift quiet_getHubs)
    (auto intro!: quiet_and_then quiet_lift quiet_log quiet_forEach_hubs quiet_projects_steps
      quiet_pure)

lemma quiet_performGraphQLQuery: "session_writes (fst (performGraphQLQuery be t)) = []"
  using quiet_query_steps [of be t]
  by (cases "query_steps be t")
    (auto simp add: performGraphQLQuery_eq session_writes_def split: sum.splits)

lemma callback_writes:
  assumes "truthy code"
  shows "session_writes (trace (callback_handler cfg be code sess)) =
           (case snd (token_exchange cfg be code) of
              Inl error \<Rightarrow> []
            | Inr token \<Rightarrow> [SessionWrite token])"
proof (cases "token_exchange cfg be code")
  case (Pair tr r)
  have tr: "session_writes tr = []"
  proof -
    have "session_writes (fst (token_exchange cfg be code)) = []"
      unfolding token_exchange_def
      by (intro quiet_and_then quiet_lift) (simp add: axios_post_def session_writes_def)
    then show ?thesis by (simp add: Pair)
  qed
  show ?thesis
  proof (cases r)
    case (Inl error)
    then show ?thesis
      using callback_exchange_failed [OF assms, of cfg be tr error sess] Pair tr
      by (simp add: token_error_reply_def session_writes_def)
  next
    case (Inr token)
    obtain result where "snd (performGraphQLQuery be token) = Inr result"
      using performGraphQLQuery_returns by blast
    then show ?thesis
      using callback_after_exchange [OF assms, of cfg be tr token result sess] Pair Inr tr
        quiet_performGraphQLQuery [of be token]
      by (simp add: session_writes_def)
  qed
qed

lemma callback_500_unchanged:
  assumes "response (callback_handler cfg be code sess) = Json 500 body"
  shows "session_after (callback_handler cfg be code sess) = sess \<and>
         session_writes (trace (callback_handler cfg be code sess)) = []"
proof (cases "truthy code")
  case False
  then show ?thesis using assms by (simp add: callback_handler_def)
next
  case True
  obtain tr r where x: "token_exchange cfg be code = (tr, r)"
    by (cases "token_exchange cfg be code")
  show ?thesis
  proof (cases r)
    case (Inl error)
    then show ?thesis
      using callback_exchange_failed [OF True, of cfg be tr error sess] x
        callback_writes [OF True, of cfg be sess]
      by (simp add: token_error_reply_def)
  next
    case (Inr token)
    obtain result where "snd (performGraphQLQuery be token) = Inr result"
      using performGraphQLQuery_returns by blast
    then show ?thesis
      using callback_after_exchange [OF True, of cfg be tr token result sess] x Inr assms
      by simp
  qed
qed

text \<open>
  C10, as amended. In a callback request with a code, the session's \<^verbatim>\<open>accessToken\<close> is
  written exactly when the call to the token endpoint returns a response body other
  than \<^verbatim>\<open>null\<close> and \<^verbatim>\<open>undefined\<close>. When the call throws, the session is left as it was
  and nothing is written; more generally a reply with status 500 comes with no write.
  When the call returns such a body, the value of its \<^verbatim>\<open>access_token\<close> (\<^verbatim>\<open>undefined\<close>
  when the body has none) is written right after the POST and before everything the
  orchestrator does, and the session keeps it whatever the orchestrator returns.
\<close>

theorem session_written_iff_exchanged:
  assumes "truthy code"
      and "to_string code = Inr code_text"
  shows "(\<forall>error. token_endpoint be (token_request_body cfg code_text) = Inl error \<longrightarrow>
            session_after (callback_handler cfg be code sess) = sess \<and>
            session_writes (trace (callback_handler cfg be code sess)) = []) \<and>
         (\<forall>body. response (callback_handler cfg be code sess) = Json 500 body \<longrightarrow>
            session_after (callback_handler cfg be code sess) = sess \<and>
            session_writes (trace (callback_handler cfg be code sess)) = []) \<and>
         (\<forall>tokens. token_endpoint be (token_request_body cfg code_text) = Inr tokens \<and>
              nullish tokens \<longrightarrow>
            session_after (callback_handler cfg be code sess) = sess \<and>
            session_writes (trace (callback_handler cfg be code sess)) = []) \<and>
         (\<forall>tokens. token_endpoint be (token_request_body cfg code_text) = Inr tokens \<and>
              \<not> nullish tokens \<longrightarrow>
            session_after (callback_handler cfg be code sess) =
              sess\<lparr>accessToken := own_prop tokens ''access_token''\<rparr> \<and>
            trace (callback_handler cfg be code sess) =
              [TokenPost (token_request_body cfg code_text),
               SessionWrite (own_prop tokens ''access_token'')] @
              fst (performGraphQLQuery be (own_prop tokens ''access_token'')) \<and>
            session_writes (trace (callback_handler cfg be code sess)) =
              [SessionWrite (own_prop tokens ''access_token'')]) \<and>
         ((session_writes (trace (callback_handler cfg be code sess)) \<noteq> []) =
            (\<exists>tokens. token_endpoint be (token_request_body cfg code_text) = Inr tokens \<and>
               \<not> nullish tokens))"
proof -
  let ?r = "callback_handler cfg be code sess"
  let ?body = "token_request_body cfg code_text"
  have rejected: "session_after ?r = sess \<and> session_writes (trace ?r) = []"
    if "token_endpoint be ?body = Inl error" for error
  proof -
    have "token_exchange cfg be code = ([TokenPost ?body], Inl error)"
      using assms(2) that by (rule token_exchange_rejected)
    then show ?thesis
      using callback_exchange_failed [OF assms(1), of cfg be _ error sess]
        callback_writes [OF assms(1), of cfg be sess]
      by (simp add: token_error_reply_def)
  qed
  have returned: "session_after ?r = sess\<lparr>accessToken := own_prop tokens ''access_token''\<rparr> \<and>
      trace ?r = [TokenPost ?body, SessionWrite (own_prop tokens ''access_token'')] @
          fst (performGraphQLQuery be (own_prop tokens ''access_token'')) \<and>
      session_writes (trace ?r) = [SessionWrite (own_prop tokens ''access_token'')]"
    if "token_endpoint be ?body = Inr tokens" and "\<not> nullish tokens" for tokens
  proof -
    have x: "token_exchange cfg be code =
        ([TokenPost ?body], Inr (own_prop tokens ''access_token''))"
      using token_exchange_returned [OF assms(2) that(1)] that(2) by (simp add: get_prop_ok)
    obtain result where
      "snd (performGraphQLQuery be (own_prop tokens ''access_token'')) = Inr result"
      using performGraphQLQuery_returns by blast
    then show ?thesis
      using callback_after_exchange [OF assms(1) x, of result sess]
        callback_writes [OF assms(1), of cfg be sess] x
      by simp
  qed
  have null_body: "session_after ?r = sess \<and> session_writes (trace ?r) = []"
    if "token_endpoint be ?body = Inr tokens" and "nullish tokens" for tokens
  proof -
    from that(2) obtain error where "get_prop tokens ''access_token'' = Inl error"
      using get_prop_nullish by blast
    then have "token_exchange cfg be code = ([TokenPost ?body], Inl error)"
      using token_exchange_returned [OF assms(2) that(1)] by simp
    then show ?thesis
      using callback_exchange_failed [OF assms(1), of cfg be _ error sess]
        callback_writes [OF assms(1), of cfg be sess]
      by (simp add: token_error_reply_def)
  qed
  have iff: "(session_writes (trace ?r) \<noteq> []) =
      (\<exists>tokens. token_endpoint be ?body = Inr tokens \<and> \<not> nullish tokens)"
  proof (cases "token_endpoint be ?body")
    case (Inl error)
    then show ?thesis using rejected by simp
  next
    case (Inr tokens)
    then show ?thesis using returned [of tokens] null_body [of tokens] by (cases "nullish tokens") auto
  qed
  show ?thesis
    using rejected null_body returned iff callback_500_unchanged [of cfg be code sess] by blast
qed

text \<open>
  A token endpoint that times out leaves an earlier token in place; one that issues
  \<^verbatim>\<open>tok\<close> has it stored although the hubs query is then refused.
\<close>

theorem session_written_iff_exchanged_witness:
  "truthy (JStr ''abc'') \<and> to_string (JStr ''abc'') = Inr ''abc'' \<and>
   session_after (callback_handler sample_config
       (mock_backend (Inl (RequestError ''timeout'')) (Inr (hubs_payload [hub_one]))
          (Inr (projects_payload [project_alpha])))
       (JStr ''abc'') \<lparr>accessToken = JStr ''old''\<rparr>) = \<lparr>accessToken = JStr ''old''\<rparr> \<and>
   session_after (callback_handler sample_config
       (mock_backend (Inr (token_payload ''tok'')) (Inl (RequestError ''Unauthorized''))
          (Inr (projects_payload [project_alpha])))
       (JStr ''abc'') no_session) = \<lparr>accessToken = JStr ''tok''\<rparr> \<and>
   session_writes (trace (callback_handler sample_config
       (mock_backend (Inr (token_payload ''tok'')) (Inl (RequestError ''Unauthorized''))
          (Inr (projects_payload [project_alpha])))
       (JStr ''abc'') no_session)) = [SessionWrite (JStr ''tok'')]"
proof -
  let ?fail = "mock_backend (Inl (RequestError ''timeout'')) (Inr (hubs_payload [hub_one]))
          (Inr (projects_payload [project_alpha]))"
  let ?ok = "mock_backend (Inr (token_payload ''tok'')) (Inl (RequestError ''Unauthorized''))
          (Inr (projects_payload [project_alpha]))"
  have a: "truthy (JStr ''abc'')" and b: "to_string (JStr ''abc'') = Inr ''abc''"
    by simp_all
  have f: "token_endpoint ?fail (token_request_body sample_config ''abc'') =
      Inl (RequestError ''timeout'')"
    by (simp add: mock_backend_def)
  have k: "token_endpoint ?ok (token_request_body sample_config ''abc'') =
      Inr (token_payload ''tok'') \<and> \<not> nullish (token_payload ''tok'')"
    by (simp add: mock_backend_def token_payload_def)
  have p: "own_prop (token_payload ''tok'') ''access_token'' = JStr ''tok''"
    by (simp add: token_payload_def)
  have 1: "session_after (callback_handler sample_config ?fail (JStr ''abc'')
      \<lparr>accessToken = JStr ''old''\<rparr>) = \<lparr>accessToken = JStr ''old''\<rparr>"
    using session_written_iff_exchanged
      [OF a b, of ?fail sample_config "\<lparr>accessToken = JStr ''old''\<rparr>"] f
    by blast
  have 2: "session_after (callback_handler sample_config ?ok (JStr ''abc'') no_session) =
        no_session\<lparr>accessToken := own_prop (token_payload ''tok'') ''access_token''\<rparr> \<and>
      session_writes (trace (callback_handler sample_config ?ok (JStr ''abc'') no_session)) =
        [SessionWrite (own_prop (token_payload ''tok'') ''access_token'')]"
    using session_written_iff_exchanged [OF a b, of ?ok sample_config no_session] k
    by blast
  show ?thesis
    using a b 1 2 by (simp add: p no_session_def)
qed

text \<open>
  C10 as stated ties the write to the success of the call. A call that returns the body
  \<^verbatim>\<open>null\<close> has returned, yet the reply is a 500 and nothing is written. A call that
  returns the body \<^verbatim>\<open>{}\<close> has obtained no token, yet the slot is written: the earlier
  token \<^verbatim>\<open>old\<close> is replaced by \<^verbatim>\<open>undefined\<close>.
\<close>

theorem session_write_counterexample:
  "token_endpoint
       (mock_backend (Inr JNull) (Inr (hubs_payload [hub_one]))
          (Inr (projects_payload [project_alpha])))
       (token_request_body sample_config ''abc'') = Inr JNull \<and>
   status_of (response (callback_handler sample_config
       (mock_backend (Inr JNull) (Inr (hubs_payload [hub_one]))
          (Inr (projects_payload [project_alpha])))
       (JStr ''abc'') no_session)) = 500 \<and>
   session_writes (trace (callback_handler sample_config
       (mock_backend (Inr JNull) (Inr (hubs_payload [hub_one]))
          (Inr (projects_payload [project_alpha])))
       (JStr ''abc'') no_session)) = [] \<and>
   session_after (callback_handler sample_config
       (mock_backend (Inr (JObj [])) (Inl (RequestError ''Unauthorized''))
          (Inl (RequestError ''Unauthorized'')))
       (JStr ''abc'') \<lparr>accessToken = JStr ''old''\<rparr>) = \<lparr>accessToken = JUndefined\<rparr> \<and>
   session_writes (trace (callback_handler sample_config
       (mock_backend (Inr (JObj [])) (Inl (RequestError ''Unauthorized''))
          (Inl (RequestError ''Unauthorized'')))
       (JStr ''abc'') \<lparr>accessToken = JStr ''old''\<rparr>)) = [SessionWrite JUndefined]"
proof -
  have e: "token_endpoint (mock_backend outcome h p) (token_request_body sample_config ''abc'') =
      outcome" for outcome h p
    by (simp add: mock_backend_def)
  have t: "truthy (JStr ''abc'')" and c: "to_string (JStr ''abc'') = Inr ''abc''"
    by simp_all
  have x: "token_exchange sample_config (mock_backend (Inr body) h p) (JStr ''abc'') =
      ([TokenPost (token_request_body sample_config ''abc'')], get_prop body ''access_token'')"
    for body h p
    using token_exchange_returned [OF c e] .
  let ?null = "mock_backend (Inr JNull) (Inr (hubs_payload [hub_one]))
          (Inr (projects_payload [project_alpha]))"
  let ?bare = "mock_backend (Inr (JObj [])) (Inl (RequestError ''Unauthorized''))
          (Inl (RequestError ''Unauthorized''))"
  obtain error where n: "get_prop JNull ''access_token'' = Inl error"
    using get_prop_nullish [of JNull] by auto
  have 1: "status_of (response (callback_handler sample_config ?null (JStr ''abc'') no_session)) = 500"
    using callback_exchange_failed [OF t, of sample_config ?null _ error no_session] x [of JNull] n
    by (simp add: token_error_reply_def)
  have 2: "session_writes (trace (callback_handler sample_config ?null (JStr ''abc'') no_session)) = []"
    using callback_writes [OF t, of sample_config ?null no_session] x [of JNull] n by simp
  have u: "get_prop (JObj []) ''access_token'' = Inr JUndefined"
    by (simp add: get_prop_def)
  obtain result where "snd (performGraphQLQuery ?bare JUndefined) = Inr result"
    using performGraphQLQuery_returns by blast
  then have 3: "session_after (callback_handler sample_config ?bare (JStr ''abc'')
      \<lparr>accessToken = JStr ''old''\<rparr>) = \<lparr>accessToken = JUndefined\<rparr>"
    using callback_after_exchange [OF t, of sample_config ?bare _ JUndefined result
        "\<lparr>accessToken = JStr ''old''\<rparr>"] x [of "JObj []"] u
    by simp
  have 4: "session_writes (trace (callback_handler sample_config ?bare (JStr ''abc'')
      \<lparr>accessToken = JStr ''old''\<rparr>)) = [SessionWrite JUndefined]"
    using callback_writes [OF t, of sample_config ?bare "\<lparr>accessToken = JStr ''old''\<rparr>"]
      x [of "JObj []"] u
    by simp
  show ?thesis
    using e 1 2 3 4 by simp
qed

section \<open>The session over a sequence of requests\<close>

lemma token_exchange_token:
  assumes "token_exchange cfg be code = (tr, Inr token)"
  shows "\<exists>data tokens. token_endpoint be data = Inr tokens \<and>
           get_prop tokens ''access_token'' = Inr token"
proof (cases "to_string code")
  case (Inl e)
  then show ?thesis
    using assms by (simp add: token_exchange_def and_then_lift_Inl)
next
  case (Inr code_text)
  show ?thesis
  proof (cases "token_endpoint be (token_request_body cfg code_text)")
    case (Inl e)
    then show ?thesis
      using assms token_exchange_rejected [OF Inr Inl] by simp
  next
    case inner: (Inr tokens)
    then show ?thesis
      using assms token_exchange_returned [OF Inr inner] by auto
  qed
qed

lemma handle_writes:
  "session_writes (trace (handle cfg be req sess)) = expected_writes cfg be req"
proof (cases req)
  case GetRoot
  then show ?thesis
    by (simp add: handle_def expected_writes_def root_handler_def session_writes_def)
next
  case (GetCallback code)
  then show ?thesis
    by (cases "truthy code")
      (simp_all add: handle_def expected_writes_def callback_writes,
       simp add: callback_handler_def session_writes_def)
qed

lemma expected_writes_once: "length (expected_writes cfg be req) \<le> Suc 0"
  by (simp add: expected_writes_def split: request.splits sum.splits)

lemma handle_slot:
  assumes "slot_ok (accessToken sess)"
      and "issues_tokens be"
  shows "slot_ok (accessToken (session_after (handle cfg be req sess)))"
proof (cases req)
  case GetRoot
  then show ?thesis
    using assms(1) by (simp add: handle_def root_handler_def)
next
  case (GetCallback code)
  show ?thesis
  proof (cases "truthy code")
    case False
    then show ?thesis
      using assms(1) GetCallback by (simp add: handle_def callback_handler_def)
  next
    case True
    obtain tr r where x: "token_exchange cfg be code = (tr, r)"
      by (cases "token_exchange cfg be code")
    show ?thesis
    proof (cases r)
      case (Inl error)
      then show ?thesis
        using callback_exchange_failed [OF True, of cfg be tr error sess] x assms(1) GetCallback
        by (simp add: handle_def token_error_reply_def)
    next
      case (Inr token)
      from token_exchange_token [of cfg be code tr token] x Inr
      obtain data tokens where t: "token_endpoint be data = Inr tokens"
        "get_prop tokens ''access_token'' = Inr token"
        by auto
      from assms(2) t(1) have "\<not> nullish tokens" "is_token (own_prop tokens ''access_token'')"
        unfolding issues_tokens_def by blast+
      with t(2) have tok: "is_token token"
        by (simp add: get_prop_ok)
      obtain result where "snd (performGraphQLQuery be token) = Inr result"
        using performGraphQLQuery_returns by blast
      then show ?thesis
        using callback_after_exchange [OF True, of cfg be tr token result sess] x Inr tok GetCallback
        by (simp add: handle_def slot_ok_def)
    qed
  qed
qed

lemma serve_writes:
  "map (\<lambda>r. session_writes (trace r)) (serve cfg steps sess) =
     map (\<lambda>step. expected_writes cfg (fst step) (snd step)) steps"
proof (induction steps arbitrary: sess)
  case Nil
  show ?case by simp
next
  case (Cons step steps)
  obtain be req where step: "step = (be, req)" by (cases step)
  show ?case
    by (simp add: step Let_def handle_writes Cons.IH)
qed

lemma serve_slots:
  assumes "slot_ok (accessToken sess)"
      and "list_all (\<lambda>step. issues_tokens (fst step)) steps"
  shows "list_all (\<lambda>r. slot_ok (accessToken (session_after r))) (serve cfg steps sess)"
  using assms
proof (induction steps arbitrary: sess)
  case Nil
  show ?case by simp
next
  case (Cons step steps)
  obtain be req where step: "step = (be, req)" by (cases step)
  have now: "slot_ok (accessToken (session_after (handle cfg be req sess)))"
    using Cons.prems step by (simp add: handle_slot)
  have rest: "list_all (\<lambda>step. issues_tokens (fst step)) steps"
    using Cons.prems by simp
  from Cons.IH [OF now rest] show ?case
    by (simp add: step Let_def now)
qed

text \<open>
  C8, as amended. Over any sequence of requests of one session, each request writes the
  \<^verbatim>\<open>accessToken\<close> slot at most once: \<^verbatim>\<open>GET /\<close> never does, and the callback handler does
  so exactly when its token exchange returned a token value, writing that value as it
  came. So the slot is absent or a non-empty string after every request, provided it
  was so at the start and every response the token endpoint returns carries a
  non-empty string as \<^verbatim>\<open>access_token\<close>.
\<close>

theorem session_slot_over_requests:
  "map (\<lambda>r. session_writes (trace r)) (serve cfg steps sess) =
     map (\<lambda>step. expected_writes cfg (fst step) (snd step)) steps \<and>
   list_all (\<lambda>step. length (expected_writes cfg (fst step) (snd step)) \<le> 1) steps \<and>
   (slot_ok (accessToken sess) \<and> list_all (\<lambda>step. issues_tokens (fst step)) steps \<longrightarrow>
      list_all (\<lambda>r. slot_ok (accessToken (session_after r))) (serve cfg steps sess))"
proof -
  have "list_all (\<lambda>step. length (expected_writes cfg (fst step) (snd step)) \<le> 1) steps"
    by (induction steps) (simp_all add: expected_writes_once)
  then show ?thesis
    using serve_writes serve_slots by blast
qed

text \<open>A session that visits \<^verbatim>\<open>GET /\<close> and then the callback.\<close>

theorem session_slot_over_requests_witness:
  "slot_ok (accessToken no_session) \<and>
   list_all (\<lambda>step. issues_tokens (fst step))
     [(mock_backend (Inr (token_payload ''tok'')) (Inr (hubs_payload [hub_one]))
         (Inr (projects_payload [project_alpha])), GetRoot),
      (mock_backend (Inr (token_payload ''tok'')) (Inr (hubs_payload [hub_one]))
         (Inr (projects_payload [project_alpha])), GetCallback (JStr ''abc''))] \<and>
   map (\<lambda>r. session_writes (trace r))
     (serve sample_config
       [(mock_backend (Inr (token_payload ''tok'')) (Inr (hubs_payload [hub_one]))
           (Inr (projects_payload [project_alpha])), GetRoot),
        (mock_backend (Inr (token_payload ''tok'')) (Inr (hubs_payload [hub_one]))
           (Inr (projects_payload [project_alpha])), GetCallback (JStr ''abc''))]
       no_session) =
     [[], [SessionWrite (JStr ''tok'')]] \<and>
   list_all (\<lambda>r. slot_ok (accessToken (session_after r)))
     (serve sample_config
       [(mock_backend (Inr (token_payload ''tok'')) (Inr (hubs_payload [hub_one]))
           (Inr (projects_payload [project_alpha])), GetRoot),
        (mock_backend (Inr (token_payload ''tok'')) (Inr (hubs_payload [hub_one]))
           (Inr (projects_payload [project_alpha])), GetCallback (JStr ''abc''))]
       no_session)"
proof -
  let ?be = "mock_backend (Inr (token_payload ''tok'')) (Inr (hubs_payload [hub_one]))
         (Inr (projects_payload [project_alpha]))"
  have a: "slot_ok (accessToken no_session)"
    by (simp add: slot_ok_def no_session_def)
  have i: "issues_tokens ?be"
    by (simp add: issues_tokens_def mock_backend_def token_payload_def)
  then have b: "list_all (\<lambda>step. issues_tokens (fst step))
      [(?be, GetRoot), (?be, GetCallback (JStr ''abc''))]"
    by simp
  have x: "token_exchange sample_config ?be (JStr ''abc'') =
      ([TokenPost (token_request_body sample_config ''abc'')], Inr (JStr ''tok''))"
    by (simp add: token_exchange_returned [of _ "''abc''" _ _ "token_payload ''tok''"]
        mock_backend_def token_payload_def get_prop_def)
  have e: "expected_writes sample_config ?be GetRoot = []"
    "expected_writes sample_config ?be (GetCallback (JStr ''abc'')) = [SessionWrite (JStr ''tok'')]"
    by (simp_all add: expected_writes_def x)
  from session_slot_over_requests
    [of sample_config "[(?be, GetRoot), (?be, GetCallback (JStr ''abc''))]" no_session] a b
  show ?thesis
    by (simp add: e)
qed

text \<open>
  C8 as stated has the slot written at most once and never empty. A session that goes
  through the callback twice is written twice, the second token replacing the first;
  and a token endpoint that returns the empty string as \<^verbatim>\<open>access_token\<close> has the empty
  string stored.
\<close>

theorem session_slot_counterexample:
  "session_writes (concat (map trace (serve sample_config
       [(mock_backend (Inr (token_payload ''tok1'')) (Inr (hubs_payload [hub_one]))
           (Inr (projects_payload [project_alpha])), GetCallback (JStr ''abc'')),
        (mock_backend (Inr (token_payload ''tok2'')) (Inr (hubs_payload [hub_one]))
           (Inr (projects_payload [project_alpha])), GetCallback (JStr ''def''))]
       no_session))) =
     [SessionWrite (JStr ''tok1''), SessionWrite (JStr ''tok2'')] \<and>
   map session_after (serve sample_config
       [(mock_backend (Inr (token_payload '''')) (Inr (hubs_payload [hub_one]))
           (Inr (projects_payload [project_alpha])), GetCallback (JStr ''abc''))]
       no_session) =
     [\<lparr>accessToken = JStr ''''\<rparr>]"
proof -
  have x: "token_exchange sample_config
        (mock_backend (Inr (token_payload t)) h p) (JStr c) =
      ([TokenPost (token_request_body sample_config c)], Inr (JStr t))" for t h p c
    by (simp add: token_exchange_returned [of _ c _ _ "token_payload t"]
        mock_backend_def token_payload_def get_prop_def)
  have w: "session_writes (trace (handle sample_config
        (mock_backend (Inr (token_payload t)) h p) (GetCallback (JStr (k # c))) sess)) =
      [SessionWrite (JStr t)]" for t h p k c sess
    by (simp add: handle_writes expected_writes_def x)
  have s: "session_after (handle sample_config
        (mock_backend (Inr (token_payload t)) h p) (GetCallback (JStr (k # c))) sess) =
      sess\<lparr>accessToken := JStr t\<rparr>" for t h p k c sess
  proof -
    obtain result where
      "snd (performGraphQLQuery (mock_backend (Inr (token_payload t)) h p) (JStr t)) = Inr result"
      using performGraphQLQuery_returns by blast
    then show ?thesis
      using callback_after_exchange [OF _ x, of "k # c" _ h p result sess]
      by (simp add: handle_def)
  qed
  have sw: "session_writes (a @ b) = session_writes a @ session_writes b" for a b
    by (simp add: session_writes_def)
  show ?thesis
    by (simp add: Let_def sw w s no_session_def)
qed

section \<open>The authorize redirect\<close>

lemma hex_digit_safe:
  assumes "n < 16"
  shows "form_safe (hex_digit n)"
proof -
  have "hex_digit n \<in> set ''0123456789ABCDEF''"
    unfolding hex_digit_def using assms by (intro nth_mem) simp
  moreover have "list_all form_safe ''0123456789ABCDEF''"
    by (simp add: form_safe_def)
  ultimately show ?thesis
    by (simp only: list_all_iff)
qed

lemma encode_byte_keeps_out:
  assumes "\<not> form_safe d" and "d \<noteq> CHR ''+''" and "d \<noteq> CHR ''%''"
  shows "d \<notin> set (encode_byte c)"
proof -
  have "(of_char c :: nat) < 16 * 16"
    by simp
  then have "(of_char c :: nat) div 16 < 16"
    by (rule less_mult_imp_div_less)
  then have hi: "form_safe (hex_digit (of_char c div 16))"
    by (rule hex_digit_safe)
  have lo: "form_safe (hex_digit (of_char c mod 16))"
    by (rule hex_digit_safe) simp
  show ?thesis
    using assms hi lo unfolding encode_byte_def by auto
qed

lemma form_encode_keeps_out:
  assumes "\<not> form_safe d" and "d \<noteq> CHR ''+''" and "d \<noteq> CHR ''%''"
  shows "d \<notin> set (form_encode s)"
  unfolding form_encode_def using encode_byte_keeps_out [OF assms] by (induction s) auto

lemma form_encode_no_separator:
  "CHR ''&'' \<notin> set (form_encode s)" "CHR ''='' \<notin> set (form_encode s)"
  by (rule form_encode_keeps_out; simp add: form_safe_def)+

lemma split_on_none: "d \<notin> set a \<Longrightarrow> split_on d a = [a]"
  by (induction a) auto

lemma split_on_append:
  "d \<notin> set a \<Longrightarrow> split_on d (a @ d # rest) = a # split_on d rest"
  by (induction a) (auto split: list.splits)

lemma authorize_location_text:
  "authorize_location cfg =
     ''https://developer.api.autodesk.com/authentication/v2/authorize?response_type=code&client_id=''
       @ form_encode (CLIENT_ID cfg)
       @ ''&redirect_uri=http%3A%2F%2Flocalhost%3A8080%2Fapi%2Fauth%2Fcallback''
       @ ''&scope=data%3Aread+account%3Aread+viewables%3Aread''"
  by (simp add: authorize_location_def authorize_params_def urlsearchparams_toString_def
      REDIRECT_URI_def SCOPES_def form_encode_def encode_byte_def form_safe_def hex_digit_def)

lemma authorize_query_names:
  "query_names (authorize_location cfg) =
     [''response_type'', ''client_id'', ''redirect_uri'', ''scope'']"
proof -
  let ?id = "form_encode (CLIENT_ID cfg)"
  let ?tail = "''redirect_uri=http%3A%2F%2Flocalhost%3A8080%2Fapi%2Fauth%2Fcallback&scope=data%3Aread+account%3Aread+viewables%3Aread''"
  have q: "drop 1 (dropWhile (\<lambda>c. c \<noteq> CHR ''?'') (authorize_location cfg)) =
      ''response_type=code'' @ CHR ''&'' # (''client_id='' @ ?id) @ CHR ''&'' # ?tail"
    by (simp add: authorize_location_text)
  have "CHR ''&'' \<notin> set (''client_id='' @ ?id)"
    using form_encode_no_separator(1) [of "CLIENT_ID cfg"] by simp
  then have "split_on CHR ''&'' ((''client_id='' @ ?id) @ CHR ''&'' # ?tail) =
      (''client_id='' @ ?id) # split_on CHR ''&'' ?tail"
    by (rule split_on_append)
  moreover have "split_on CHR ''&'' ?tail =
      [''redirect_uri=http%3A%2F%2Flocalhost%3A8080%2Fapi%2Fauth%2Fcallback'',
       ''scope=data%3Aread+account%3Aread+viewables%3Aread'']"
    by simp
  moreover have "split_on CHR ''&'' (''response_type=code'' @ CHR ''&'' # r) =
      ''response_type=code'' # split_on CHR ''&'' r" for r
    by (rule split_on_append) simp
  ultimately have "split_on CHR ''&'' (drop 1 (dropWhile (\<lambda>c. c \<noteq> CHR ''?'') (authorize_location cfg))) =
      [''response_type=code'', ''client_id='' @ ?id,
       ''redirect_uri=http%3A%2F%2Flocalhost%3A8080%2Fapi%2Fauth%2Fcallback'',
       ''scope=data%3Aread+account%3Aread+viewables%3Aread'']"
    by (simp only: q)
  then show ?thesis
    by (simp add: query_names_def)
qed

text \<open>
  C9. Every request to \<^verbatim>\<open>GET /\<close> is answered with a 302 redirect to the provider's
  authorize URL. Its query string is made of exactly four parameters, in this order:
  \<^verbatim>\<open>response_type=code\<close>, \<^verbatim>\<open>client_id\<close> with the configured client id, \<^verbatim>\<open>redirect_uri\<close>
  with the fixed local callback, and \<^verbatim>\<open>scope\<close> with the three scopes joined by spaces
  (each value form-encoded). There is no \<^verbatim>\<open>state\<close> and no \<^verbatim>\<open>nonce\<close> parameter.
\<close>

theorem root_redirects_to_authorize:
  "response (root_handler cfg sess) = Redirect 302 (authorize_location cfg) \<and>
   authorize_location cfg =
     ''https://developer.api.autodesk.com/authentication/v2/authorize?response_type=code&client_id=''
       @ form_encode (CLIENT_ID cfg)
       @ ''&redirect_uri=http%3A%2F%2Flocalhost%3A8080%2Fapi%2Fauth%2Fcallback''
       @ ''&scope=data%3Aread+account%3Aread+viewables%3Aread'' \<and>
   authorize_params cfg =
     [(''response_type'', ''code''),
      (''client_id'', CLIENT_ID cfg),
      (''redirect_uri'', ''http://localhost:8080/api/auth/callback''),
      (''scope'', ''data:read account:read viewables:read'')] \<and>
   query_names (authorize_location cfg) =
     [''response_type'', ''client_id'', ''redirect_uri'', ''scope''] \<and>
   ''state'' \<notin> set (query_names (authorize_location cfg)) \<and>
   ''nonce'' \<notin> set (query_names (authorize_location cfg))"
proof -
  have a: "response (root_handler cfg sess) = Redirect 302 (authorize_location cfg)"
    by (simp add: root_handler_def)
  have b: "authorize_params cfg =
     [(''response_type'', ''code''),
      (''client_id'', CLIENT_ID cfg),
      (''redirect_uri'', ''http://localhost:8080/api/auth/callback''),
      (''scope'', ''data:read account:read viewables:read'')]"
    by (simp add: authorize_params_def REDIRECT_URI_def SCOPES_def)
  have c: "''state'' \<notin> set (query_names (authorize_location cfg))"
    "''nonce'' \<notin> set (query_names (authorize_location cfg))"
    by (simp_all add: authorize_query_names)
  show ?thesis
    by (intro conjI) (rule a authorize_location_text b authorize_query_names c)+
qed

text \<open>The client id \<^verbatim>\<open>my client\<close>, whose space is encoded as \<^verbatim>\<open>+\<close>.\<close>

theorem root_redirects_to_authorize_witness:
  "response (root_handler sample_config no_session) =
     Redirect 302
       ''https://developer.api.autodesk.com/authentication/v2/authorize?response_type=code&client_id=my+client&redirect_uri=http%3A%2F%2Flocalhost%3A8080%2Fapi%2Fauth%2Fcallback&scope=data%3Aread+account%3Aread+viewables%3Aread''"
proof -
  have "form_encode (CLIENT_ID sample_config) = ''my+client''"
    by (simp add: sample_config_def form_encode_def encode_byte_def form_safe_def)
  then show ?thesis
    using root_redirects_to_authorize [of sample_config no_session] by simp
qed

end
